theory Spec2Isabelle
  imports Complex_Main
begin

section \<open>Conventions of the embedding\<close>

text \<open>
  The Go sources are embedded shallowly.  A Go \<^verbatim>\<open>string\<close> is a \<^typ>\<open>string\<close> (a list of
  bytes); \<^verbatim>\<open>strings.ToLower\<close> is modelled on the ASCII letters, where Go's function and
  the model agree.  Go's \<^verbatim>\<open>int\<close> and \<^verbatim>\<open>int64\<close> counters are modelled by \<^typ>\<open>int\<close>: they
  are only ever incremented by one per call or summed over a rule list, and no property
  below depends on a wrap-around at \<open>2^63\<close>.  A \<^verbatim>\<open>float64\<close> is modelled by the \<^typ>\<open>real\<close>
  number it approximates.  A \<^verbatim>\<open>time.Time\<close> is the number of nanoseconds since Go's zero
  time, so that \<^verbatim>\<open>IsZero\<close> is equality with \<open>0\<close>; every call of \<^verbatim>\<open>time.Now()\<close> is an
  explicit argument of the function that makes it.  A \<^verbatim>\<open>time.Duration\<close> is a number of
  nanoseconds that saturates at the \<^verbatim>\<open>int64\<close> bounds, as \<^verbatim>\<open>Time.Sub\<close> does.
\<close>

type_synonym time = int

definition IsZero :: "time \<Rightarrow> bool" where
  "IsZero t = (t = 0)"

definition minDuration :: int where
  "minDuration = - (2 ^ 63)"

definition maxDuration :: int where
  "maxDuration = 2 ^ 63 - 1"

definition Hour :: int where
  "Hour = 3600 * 1000000000"

text \<open>\<^verbatim>\<open>time.Since(t)\<close>, with the reading of the clock as first argument.\<close>

definition Since :: "time \<Rightarrow> time \<Rightarrow> int" where
  "Since now t = max minDuration (min maxDuration (now - t))"

subsection \<open>The functions of package strings that the sources use\<close>

fun HasPrefix :: "string \<Rightarrow> string \<Rightarrow> bool" where
  "HasPrefix s [] = True"
| "HasPrefix [] (p # ps) = False"
| "HasPrefix (c # cs) (p # ps) = (c = p \<and> HasPrefix cs ps)"

fun Contains :: "string \<Rightarrow> string \<Rightarrow> bool" where
  "Contains [] sub = (sub = [])"
| "Contains (c # cs) sub = (HasPrefix (c # cs) sub \<or> Contains cs sub)"

definition lower_char :: "char \<Rightarrow> char" where
  "lower_char c =
     (let n = (of_char c :: nat) in if 65 \<le> n \<and> n \<le> 90 then char_of (n + 32) else c)"

definition ToLower :: "string \<Rightarrow> string" where
  "ToLower s = map lower_char s"

section \<open>The health monitor (internal/scraper/health\_monitor.go)\<close>

record FailureRecord =
  Timestamp :: time
  Ticker :: string
  Error :: string
  URL :: string

record HealthMonitor =
  totalRequests :: int
  successfulRequests :: int
  failedRequests :: int
  consecutiveFailures :: int
  lastFailureTime :: time
  lastSuccessTime :: time
  recentFailures :: "FailureRecord list"
  maxRecentFailures :: int
  failureThreshold :: real
  consecutiveThreshold :: int

record HealthStatus =
  IsHealthy :: bool
  TotalRequests :: int
  SuccessfulRequests :: int
  FailedRequests :: int
  SuccessRate :: real
  ConsecutiveFailures :: int
  LastFailureTime :: "time option"
  LastSuccessTime :: "time option"
  RecentFailures :: "FailureRecord list"
  HealthIssues :: "string list"
  RecommendedActions :: "string list"

definition NewHealthMonitor :: HealthMonitor where
  "NewHealthMonitor =
     \<lparr> totalRequests = 0, successfulRequests = 0, failedRequests = 0,
       consecutiveFailures = 0, lastFailureTime = 0, lastSuccessTime = 0,
       recentFailures = [], maxRecentFailures = 50, failureThreshold = 2 / 10,
       consecutiveThreshold = 5 \<rparr>"

text \<open>\<^verbatim>\<open>RecordSuccess\<close>; \<open>now\<close> is its reading of the clock.\<close>

definition RecordSuccess :: "time \<Rightarrow> string \<Rightarrow> HealthMonitor \<Rightarrow> HealthMonitor" where
  "RecordSuccess now ticker h =
     h \<lparr> totalRequests := totalRequests h + 1,
         successfulRequests := successfulRequests h + 1,
         consecutiveFailures := 0,
         lastSuccessTime := now \<rparr>"

text \<open>
  \<^verbatim>\<open>RecordFailure\<close> reads the clock twice: \<open>now1\<close> stamps \<^verbatim>\<open>lastFailureTime\<close>, \<open>now2\<close> the
  record.  The record is appended, and the first element is dropped when the slice has
  grown beyond \<^verbatim>\<open>maxRecentFailures\<close>.
\<close>

definition RecordFailure ::
  "time \<Rightarrow> time \<Rightarrow> string \<Rightarrow> string \<Rightarrow> string \<Rightarrow> HealthMonitor \<Rightarrow> HealthMonitor" where
  "RecordFailure now1 now2 ticker errorMsg url h =
     (let failure = \<lparr> Timestamp = now2, Ticker = ticker, Error = errorMsg, URL = url \<rparr>;
          appended = recentFailures h @ [failure]
      in h \<lparr> totalRequests := totalRequests h + 1,
             failedRequests := failedRequests h + 1,
             consecutiveFailures := consecutiveFailures h + 1,
             lastFailureTime := now1,
             recentFailures :=
               (if int (length appended) > maxRecentFailures h then tl appended
                else appended) \<rparr>)"

definition Reset :: "HealthMonitor \<Rightarrow> HealthMonitor" where
  "Reset h =
     h \<lparr> totalRequests := 0, successfulRequests := 0, failedRequests := 0,
         consecutiveFailures := 0, lastFailureTime := 0, lastSuccessTime := 0,
         recentFailures := [] \<rparr>"

definition categorizeError :: "string \<Rightarrow> string" where
  "categorizeError errorMsg0 =
     (let errorMsg = ToLower errorMsg0 in
      if Contains errorMsg ''timeout'' \<or> Contains errorMsg ''deadline'' then ''timeout''
      else if Contains errorMsg ''rate limit'' \<or> Contains errorMsg ''429'' then ''rate_limit''
      else if Contains errorMsg ''unauthorized'' \<or> Contains errorMsg ''401''
              \<or> Contains errorMsg ''403'' then ''authentication''
      else if Contains errorMsg ''network'' \<or> Contains errorMsg ''connection''
              \<or> Contains errorMsg ''dns'' then ''network''
      else ''other'')"

text \<open>
  \<^verbatim>\<open>analyzeFailurePatterns\<close> counts the error types of the ring and visits every type whose
  share is above one half.  The Go code ranges over a map, in no fixed order; at most one
  type can hold more than half of the ring, so the order of the visit does not show.
\<close>

definition errorCount :: "FailureRecord list \<Rightarrow> string \<Rightarrow> nat" where
  "errorCount fs errorType = length (filter (\<lambda>f. categorizeError (Error f) = errorType) fs)"

definition patternIssue :: "string \<Rightarrow> (string \<times> string) option" where
  "patternIssue errorType =
     (if errorType = ''timeout'' then
        Some (''Frequent timeout errors detected'',
              ''Consider increasing request timeouts or reducing concurrency'')
      else if errorType = ''rate_limit'' then
        Some (''Rate limiting detected'',
              ''Reduce scraping frequency and implement exponential backoff'')
      else if errorType = ''authentication'' then
        Some (''Authentication errors detected'',
              ''Verify OxyLabs credentials and account status'')
      else if errorType = ''network'' then
        Some (''Network connectivity issues detected'',
              ''Check network connectivity and DNS resolution'')
      else None)"

definition visitErrorType :: "FailureRecord list \<Rightarrow> string \<Rightarrow> HealthStatus \<Rightarrow> HealthStatus" where
  "visitErrorType fs errorType status =
     (if errorCount fs errorType > 0
         \<and> real (errorCount fs errorType) / real (length fs) > 5 / 10 then
        (case patternIssue errorType of
           None \<Rightarrow> status
         | Some (issue, action) \<Rightarrow>
             status \<lparr> HealthIssues := HealthIssues status @ [issue],
                      RecommendedActions := RecommendedActions status @ [action] \<rparr>)
      else status)"

definition analyzeFailurePatterns :: "HealthMonitor \<Rightarrow> HealthStatus \<Rightarrow> HealthStatus" where
  "analyzeFailurePatterns h status =
     (if length (recentFailures h) < 3 then status
      else fold (visitErrorType (recentFailures h))
             [''timeout'', ''rate_limit'', ''authentication'', ''network'', ''other''] status)"

text \<open>\<^verbatim>\<open>GetHealthStatus\<close>; \<open>now\<close> is the reading of the clock inside \<^verbatim>\<open>time.Since\<close>.\<close>

definition checkFailureRate :: "HealthMonitor \<Rightarrow> HealthStatus \<Rightarrow> HealthStatus" where
  "checkFailureRate h status =
     (if totalRequests h \<ge> 10 \<and> SuccessRate status < 1 - failureThreshold h then
        status \<lparr> IsHealthy := False,
                 HealthIssues := HealthIssues status @ [''High failure rate detected (>20%)''],
                 RecommendedActions := RecommendedActions status
                   @ [''Check OxyLabs connectivity and credentials''] \<rparr>
      else status)"

definition checkConsecutive :: "HealthMonitor \<Rightarrow> HealthStatus \<Rightarrow> HealthStatus" where
  "checkConsecutive h status =
     (if consecutiveFailures h \<ge> consecutiveThreshold h then
        status \<lparr> IsHealthy := False,
                 HealthIssues := HealthIssues status @ [''Multiple consecutive failures detected''],
                 RecommendedActions := RecommendedActions status
                   @ [''Verify OTC Markets website accessibility and rate limits''] \<rparr>
      else status)"

definition checkStale :: "time \<Rightarrow> HealthMonitor \<Rightarrow> HealthStatus \<Rightarrow> HealthStatus" where
  "checkStale now h status =
     (if \<not> IsZero (lastSuccessTime h) \<and> Since now (lastSuccessTime h) > Hour then
        status \<lparr> IsHealthy := False,
                 HealthIssues := HealthIssues status @ [''No successful requests in the last hour''],
                 RecommendedActions := RecommendedActions status
                   @ [''Check system connectivity and OxyLabs service status''] \<rparr>
      else status)"

definition GetHealthStatus :: "time \<Rightarrow> HealthMonitor \<Rightarrow> HealthStatus" where
  "GetHealthStatus now h =
     (let status0 =
            \<lparr> IsHealthy = True,
              TotalRequests = totalRequests h,
              SuccessfulRequests = successfulRequests h,
              FailedRequests = failedRequests h,
              SuccessRate =
                (if totalRequests h > 0
                 then real_of_int (successfulRequests h) / real_of_int (totalRequests h)
                 else 1),
              ConsecutiveFailures = consecutiveFailures h,
              LastFailureTime =
                (if \<not> IsZero (lastFailureTime h) then Some (lastFailureTime h) else None),
              LastSuccessTime =
                (if \<not> IsZero (lastSuccessTime h) then Some (lastSuccessTime h) else None),
              RecentFailures = recentFailures h,
              HealthIssues = [],
              RecommendedActions = [] \<rparr>
      in analyzeFailurePatterns h
           (checkStale now h (checkConsecutive h (checkFailureRate h status0))))"

text \<open>
  A call of the monitor's interface, with the clock readings the call makes, and the
  monitor after a sequence of calls.
\<close>

datatype monitor_call =
    CallSuccess time string
  | CallFailure time time string string string
  | CallReset

fun applyCall :: "monitor_call \<Rightarrow> HealthMonitor \<Rightarrow> HealthMonitor" where
  "applyCall (CallSuccess now ticker) h = RecordSuccess now ticker h"
| "applyCall (CallFailure now1 now2 ticker errorMsg url) h =
     RecordFailure now1 now2 ticker errorMsg url h"
| "applyCall CallReset h = Reset h"

fun runCalls :: "monitor_call list \<Rightarrow> HealthMonitor \<Rightarrow> HealthMonitor" where
  "runCalls [] h = h"
| "runCalls (c # cs) h = runCalls cs (applyCall c h)"

text \<open>
  What a call sequence amounts to, read off the calls alone: the calls after the last
  reset, the successes and the failure records among them, and the number of failures
  since the last success.
\<close>

definition afterReset :: "monitor_call list \<Rightarrow> monitor_call list" where
  "afterReset cs = rev (takeWhile (\<lambda>c. c \<noteq> CallReset) (rev cs))"

fun isSuccess :: "monitor_call \<Rightarrow> bool" where
  "isSuccess (CallSuccess now ticker) = True"
| "isSuccess c = False"

fun failureOf :: "monitor_call \<Rightarrow> FailureRecord list" where
  "failureOf (CallFailure now1 now2 ticker errorMsg url) =
     [\<lparr> Timestamp = now2, Ticker = ticker, Error = errorMsg, URL = url \<rparr>]"
| "failureOf c = []"

definition failuresOf :: "monitor_call list \<Rightarrow> FailureRecord list" where
  "failuresOf cs = concat (map failureOf cs)"

definition trailingFailures :: "monitor_call list \<Rightarrow> nat" where
  "trailingFailures cs = length (takeWhile (\<lambda>c. \<not> isSuccess c) (rev cs))"

definition lastSuccessOf :: "monitor_call list \<Rightarrow> time option" where
  "lastSuccessOf cs =
     (case filter isSuccess (rev cs) of
        CallSuccess now ticker # rest \<Rightarrow> (if now = 0 then None else Some now)
      | _ \<Rightarrow> None)"

text \<open>The configuration that \<^verbatim>\<open>NewHealthMonitor\<close> sets and no method changes.\<close>

definition monitorInv :: "HealthMonitor \<Rightarrow> bool" where
  "monitorInv h = (maxRecentFailures h = 50 \<and> failureThreshold h = 2 / 10
     \<and> consecutiveThreshold h = 5)"

subsection \<open>Example runs of the monitor\<close>

definition sixFailures :: "monitor_call list" where
  "sixFailures =
     [CallSuccess 5 ''AAPL'',
      CallFailure 10 11 ''T'' ''timeout error'' [], CallFailure 20 21 ''T'' ''timeout error'' [],
      CallFailure 30 31 ''T'' ''timeout error'' [], CallFailure 40 41 ''T'' ''timeout error'' [],
      CallFailure 50 51 ''T'' ''timeout error'' []]"

definition manyFailures :: "monitor_call list" where
  "manyFailures = map (\<lambda>n. CallFailure (int n) (int n) ''T'' ''error'' []) [0..<51]"

section \<open>The scoring engine (internal/scoring/engine.go)\<close>

subsection \<open>More of package strings\<close>

definition isSpace :: "char \<Rightarrow> bool" where
  "isSpace c = ((of_char c :: nat) \<in> {9, 10, 11, 12, 13, 32})"

definition TrimSpace :: "string \<Rightarrow> string" where
  "TrimSpace s = rev (dropWhile isSpace (rev (dropWhile isSpace s)))"

text \<open>\<^verbatim>\<open>strings.Split(s, sep)\<close> for a separator that is not empty; \<open>acc\<close> holds the
  current piece, reversed.\<close>

fun splitFrom :: "string \<Rightarrow> string \<Rightarrow> string \<Rightarrow> string list" where
  "splitFrom sep acc [] = [rev acc]"
| "splitFrom sep acc (c # cs) =
     (if sep \<noteq> [] \<and> HasPrefix (c # cs) sep
      then rev acc # splitFrom sep [] (drop (length sep) (c # cs))
      else splitFrom sep (c # acc) cs)"

definition Split :: "string \<Rightarrow> string \<Rightarrow> string list" where
  "Split s sep = splitFrom sep [] s"

fun fieldsFrom :: "string \<Rightarrow> string \<Rightarrow> string list" where
  "fieldsFrom acc [] = (if acc = [] then [] else [rev acc])"
| "fieldsFrom acc (c # cs) =
     (if isSpace c then (if acc = [] then fieldsFrom [] cs else rev acc # fieldsFrom [] cs)
      else fieldsFrom (c # acc) cs)"

definition Fields :: "string \<Rightarrow> string list" where
  "Fields s = fieldsFrom [] s"

text \<open>\<^verbatim>\<open>strings.ReplaceAll(s, old, new)\<close> for a one-byte \<open>old\<close>, its only use.\<close>

definition ReplaceAll :: "string \<Rightarrow> char \<Rightarrow> string \<Rightarrow> string" where
  "ReplaceAll s old new = concat (map (\<lambda>c. if c = old then new else [c]) s)"

subsection \<open>Values of type interface\{\}\<close>

text \<open>
  The dynamic types the engine tells apart: the nil interface, \<^verbatim>\<open>bool\<close>, the signed
  integers \<^verbatim>\<open>int\<close>, \<^verbatim>\<open>int32\<close>, \<^verbatim>\<open>int64\<close>, the floats, \<^verbatim>\<open>string\<close>, \<^verbatim>\<open>time.Time\<close>,
  \<^verbatim>\<open>*time.Time\<close> (\<open>None\<close> is the nil pointer), \<^verbatim>\<open>[]interface{}\<close>, \<^verbatim>\<open>[]string\<close>, and any
  other type, which the engine only ever prints.
\<close>

datatype gvalue =
    VNil
  | VBool bool
  | VInt int
  | VFloat real
  | VString string
  | VTime time
  | VTimePtr "time option"
  | VList "gvalue list"
  | VStrings "string list"
  | VOther string

text \<open>
  The functions of Go's standard library that the engine calls and the model leaves
  open: \<^verbatim>\<open>fmt.Sprintf("%v", v)\<close>, \<^verbatim>\<open>time.Parse("2006-01-02", s)\<close> (\<open>None\<close> is a parse
  error) and \<^verbatim>\<open>regexp.MatchString(pattern, s)\<close> (\<open>None\<close> is a pattern that does not
  compile).  Every theorem below holds for all of their behaviours.
\<close>

record golib =
  sprintv :: "gvalue \<Rightarrow> string"
  parseDate :: "string \<Rightarrow> time option"
  matchString :: "string \<Rightarrow> string \<Rightarrow> bool option"

type_synonym companyData = "string \<Rightarrow> gvalue option"

text \<open>Indexing a Go map: the zero value, a nil interface, for a missing key.\<close>

definition index :: "companyData \<Rightarrow> string \<Rightarrow> gvalue" where
  "index data k = (case data k of None \<Rightarrow> VNil | Some v \<Rightarrow> v)"

record Requirement =
  Field :: string
  Operator :: string
  Value :: gvalue
  Description :: string

record ScoringRule = Requirement +
  Weight :: int

record ICPModel =
  ID :: string
  Name :: string
  ModelDescription :: string
  Version :: int
  Requirements :: "Requirement list"
  Exclusions :: "Requirement list"
  Rules :: "ScoringRule list"
  MinScore :: int
  IsActive :: bool
  CreatedAt :: time
  UpdatedAt :: time

record ScoreDetail =
  Points :: int
  Triggered :: bool
  DetailDescription :: string
  DetailValue :: string

record ScoreResult =
  CompanyID :: string
  ScoringModelID :: string
  Score :: int
  Qualified :: bool
  RequirementsMet :: bool
  Breakdown :: "string \<Rightarrow> ScoreDetail option"
  ScoredAt :: time

subsection \<open>The evaluators\<close>

text \<open>\<^verbatim>\<open>time.Since(lastDate).Hours() / 24 / 30.44\<close>\<close>

definition monthsSince :: "time \<Rightarrow> time \<Rightarrow> real" where
  "monthsSince now lastDate = real_of_int (Since now lastDate) / 3600000000000 / 24 / (3044 / 100)"

definition evaluateDelinquency :: "golib \<Rightarrow> time \<Rightarrow> companyData \<Rightarrow> string \<Rightarrow> int \<Rightarrow> bool" where
  "evaluateDelinquency lib now data dateField monthsThreshold =
     (case data dateField of
        None \<Rightarrow> True
      | Some VNil \<Rightarrow> True
      | Some (VTime v) \<Rightarrow> monthsSince now v > real_of_int monthsThreshold
      | Some (VTimePtr None) \<Rightarrow> True
      | Some (VTimePtr (Some v)) \<Rightarrow> monthsSince now v > real_of_int monthsThreshold
      | Some (VString v) \<Rightarrow>
          (case parseDate lib v of
             None \<Rightarrow> True
           | Some parsed \<Rightarrow> monthsSince now parsed > real_of_int monthsThreshold)
      | Some _ \<Rightarrow> True)"

definition containsAny :: "string \<Rightarrow> string list \<Rightarrow> bool" where
  "containsAny s keywords = list_ex (\<lambda>k. Contains s k) keywords"

definition evaluateMarketTierRisk :: "golib \<Rightarrow> companyData \<Rightarrow> bool" where
  "evaluateMarketTierRisk lib data =
     (case data ''market_tier'' of
        None \<Rightarrow> False
      | Some tier \<Rightarrow>
          containsAny (ToLower (sprintv lib tier))
            [''pink limited'', ''expert market'', ''grey market'', ''gray market''])"

definition evaluateDescriptionKeywords :: "golib \<Rightarrow> companyData \<Rightarrow> string list \<Rightarrow> bool" where
  "evaluateDescriptionKeywords lib data keywords =
     (case data ''description'' of
        None \<Rightarrow> False
      | Some VNil \<Rightarrow> False
      | Some description \<Rightarrow>
          containsAny (ToLower (sprintv lib description)) (map ToLower keywords))"

definition containsAsianLocations :: "string \<Rightarrow> bool" where
  "containsAsianLocations text0 =
     containsAny (ToLower text0)
       [''taiwan'', ''tw'', ''hong kong'', ''hk'', ''china'', ''cn'', ''singapore'', ''sg'',
        ''beijing'', ''shanghai'', ''shenzhen'', ''taipei'', ''macau'', ''mo'']"

definition presentText :: "golib \<Rightarrow> companyData \<Rightarrow> string \<Rightarrow> string option" where
  "presentText lib data k =
     (case data k of None \<Rightarrow> None | Some VNil \<Rightarrow> None | Some v \<Rightarrow> Some (sprintv lib v))"

definition evaluateAsianManagement :: "golib \<Rightarrow> companyData \<Rightarrow> bool" where
  "evaluateAsianManagement lib data =
     (if (case presentText lib data ''officers'' of
            None \<Rightarrow> False | Some s \<Rightarrow> containsAsianLocations s) then True
      else if (case presentText lib data ''address'' of
            None \<Rightarrow> False | Some s \<Rightarrow> containsAsianLocations s) then True
      else False)"

definition getOfficerLocations :: "companyData \<Rightarrow> gvalue" where
  "getOfficerLocations data =
     (case data ''officers'' of None \<Rightarrow> VString ''No officer data'' | Some officers \<Rightarrow> officers)"

definition evaluateActiveTransferAgent :: "golib \<Rightarrow> companyData \<Rightarrow> bool" where
  "evaluateActiveTransferAgent lib data =
     (case presentText lib data ''transfer_agent'' of
        None \<Rightarrow> False
      | Some s \<Rightarrow>
          (let agentStr = ToLower s in
           if length (TrimSpace agentStr) = 0 then False
           else if containsAny agentStr
                     [''computershare'', ''continental'', ''american stock'', ''island stock'',
                      ''vstock'', ''pacific stock'', ''securities transfer'',
                      ''registrar and transfer''] then True
           else \<not> Contains agentStr ''unknown'' \<and> \<not> Contains agentStr ''none''))"

definition domainOf :: "string \<Rightarrow> string" where
  "domainOf websiteStr0 =
     (let s1 = (if Contains websiteStr0 ''//''
                then (case Split websiteStr0 ''//'' of
                        p0 # p1 # rest \<Rightarrow> p1
                      | _ \<Rightarrow> websiteStr0)
                else websiteStr0);
          s2 = (if Contains s1 ''/'' then (case Split s1 ''/'' of p0 # rest \<Rightarrow> p0 | [] \<Rightarrow> s1)
                else s1)
      in if HasPrefix s2 ''www.'' then drop 4 s2 else s2)"

definition significantWord :: "string \<Rightarrow> bool" where
  "significantWord word =
     (length word > 3 \<and> word \<noteq> ''inc'' \<and> word \<noteq> ''corp'' \<and> word \<noteq> ''company''
      \<and> word \<noteq> ''ltd'')"

definition evaluateDomainMatch :: "golib \<Rightarrow> companyData \<Rightarrow> bool" where
  "evaluateDomainMatch lib data =
     (case (presentText lib data ''website'', presentText lib data ''company_name'') of
        (Some website, Some companyName) \<Rightarrow>
          (let websiteStr = domainOf (ToLower website);
               nameWords = Fields (ReplaceAll (ToLower companyName) (CHR '','') '' '')
           in list_ex (\<lambda>w. let word = ToLower (TrimSpace w)
                           in significantWord word \<and> Contains websiteStr word) nameWords)
      | _ \<Rightarrow> False)"

definition evaluateAuditorPresent :: "golib \<Rightarrow> companyData \<Rightarrow> bool" where
  "evaluateAuditorPresent lib data =
     (case presentText lib data ''auditor'' of
        None \<Rightarrow> False
      | Some s \<Rightarrow>
          (let auditorStr = TrimSpace s in
           length auditorStr > 0
           \<and> \<not> Contains (ToLower auditorStr) ''unknown''
           \<and> \<not> Contains (ToLower auditorStr) ''none''))"

definition evaluateInList :: "golib \<Rightarrow> gvalue \<Rightarrow> gvalue \<Rightarrow> bool" where
  "evaluateInList lib actual expected =
     (let actualStr = sprintv lib actual in
      case expected of
        VList v \<Rightarrow> list_ex (\<lambda>item. sprintv lib item = actualStr) v
      | VStrings v \<Rightarrow> list_ex (\<lambda>item. item = actualStr) v
      | VString v \<Rightarrow> list_ex (\<lambda>item. TrimSpace item = actualStr) (Split v '','')
      | _ \<Rightarrow> False)"

definition evaluateRegex :: "golib \<Rightarrow> gvalue \<Rightarrow> gvalue \<Rightarrow> bool" where
  "evaluateRegex lib actual expected =
     (matchString lib (sprintv lib expected) (sprintv lib actual) = Some True)"

fun toFloat64 :: "gvalue \<Rightarrow> real option" where
  "toFloat64 (VFloat v) = Some v"
| "toFloat64 (VInt v) = Some (real_of_int v)"
| "toFloat64 v = None"

definition compareNumbers :: "gvalue \<Rightarrow> gvalue \<Rightarrow> string \<Rightarrow> bool" where
  "compareNumbers actual expected operator =
     (case (toFloat64 actual, toFloat64 expected) of
        (Some actualFloat, Some expectedFloat) \<Rightarrow>
          (if operator = ''>'' then actualFloat > expectedFloat
           else if operator = ''<'' then actualFloat < expectedFloat
           else if operator = ''>='' then actualFloat \<ge> expectedFloat
           else if operator = ''<='' then actualFloat \<le> expectedFloat
           else False)
      | _ \<Rightarrow> False)"

text \<open>The second half of \<^verbatim>\<open>evaluateCondition\<close>: a field that is not computed.\<close>

definition evaluateStandard ::
  "golib \<Rightarrow> companyData \<Rightarrow> string \<Rightarrow> string \<Rightarrow> gvalue \<Rightarrow> bool \<times> gvalue" where
  "evaluateStandard lib data field operator expectedValue =
     (case data field of
        None \<Rightarrow> (False, VNil)
      | Some actualValue \<Rightarrow>
          (if operator = ''equals'' then
             (sprintv lib actualValue = sprintv lib expectedValue, actualValue)
           else if operator = ''not_equals'' then
             (sprintv lib actualValue \<noteq> sprintv lib expectedValue, actualValue)
           else if operator = ''contains'' then
             (Contains (ToLower (sprintv lib actualValue)) (ToLower (sprintv lib expectedValue)),
              actualValue)
           else if operator = ''greater_than'' then
             (compareNumbers actualValue expectedValue ''>'', actualValue)
           else if operator = ''less_than'' then
             (compareNumbers actualValue expectedValue ''<'', actualValue)
           else if operator = ''greater_than_or_equal'' then
             (compareNumbers actualValue expectedValue ''>='', actualValue)
           else if operator = ''less_than_or_equal'' then
             (compareNumbers actualValue expectedValue ''<='', actualValue)
           else if operator = ''is_true'' then
             (case actualValue of
                VBool boolVal \<Rightarrow> (boolVal, actualValue)
              | _ \<Rightarrow> (sprintv lib actualValue = ''true'', actualValue))
           else if operator = ''is_false'' then
             (case actualValue of
                VBool boolVal \<Rightarrow> (\<not> boolVal, actualValue)
              | _ \<Rightarrow> (sprintv lib actualValue = ''false'', actualValue))
           else if operator = ''in'' then
             (evaluateInList lib actualValue expectedValue, actualValue)
           else if operator = ''not_in'' then
             (\<not> evaluateInList lib actualValue expectedValue, actualValue)
           else if operator = ''regex'' then
             (evaluateRegex lib actualValue expectedValue, actualValue)
           else (False, actualValue)))"

text \<open>\<^verbatim>\<open>evaluateCondition\<close>; \<open>now\<close> is the clock that \<^verbatim>\<open>time.Since\<close> reads.\<close>

definition evaluateCondition ::
  "golib \<Rightarrow> time \<Rightarrow> companyData \<Rightarrow> string \<Rightarrow> string \<Rightarrow> gvalue \<Rightarrow> bool \<times> gvalue" where
  "evaluateCondition lib now data field operator expectedValue =
     (if field = ''delinquent_10k'' then
        (evaluateDelinquency lib now data ''last_10k_date'' 15, index data ''last_10k_date'')
      else if field = ''delinquent_10q'' then
        (evaluateDelinquency lib now data ''last_10q_date'' 6, index data ''last_10q_date'')
      else if field = ''no_recent_activity'' then
        (evaluateDelinquency lib now data ''last_filing_date'' 12, index data ''last_filing_date'')
      else if field = ''pink_limited_or_expert'' then
        (evaluateMarketTierRisk lib data, index data ''market_tier'')
      else if field = ''reverse_merger_shell'' then
        (evaluateDescriptionKeywords lib data
           [''reverse merger'', ''shell company'', ''shell corporation''],
         index data ''description'')
      else if field = ''asian_management'' then
        (evaluateAsianManagement lib data, getOfficerLocations data)
      else if field = ''cannabis_or_crypto'' then
        (evaluateDescriptionKeywords lib data
           [''cannabis'', ''cbd'', ''marijuana'', ''blockchain'', ''crypto'', ''bitcoin''],
         index data ''description'')
      else if field = ''holding_company_or_spac'' then
        (evaluateDescriptionKeywords lib data
           [''blank check'', ''spac'', ''holding company'', ''special purpose''],
         index data ''description'')
      else if field = ''active_transfer_agent'' then
        (evaluateActiveTransferAgent lib data, index data ''transfer_agent'')
      else if field = ''domain_linked_to_company'' then
        (evaluateDomainMatch lib data, index data ''website'')
      else if field = ''auditor_identified'' then
        (evaluateAuditorPresent lib data, index data ''auditor'')
      else if field = ''no_verified_profile'' then
        (case index data ''profile_verified'' of
           VBool verified \<Rightarrow> (\<not> verified, VBool verified)
         | _ \<Rightarrow> (True, VBool False))
      else evaluateStandard lib data field operator expectedValue)"

subsection \<open>ScoreCompany\<close>

text \<open>
  The three loops of \<^verbatim>\<open>ScoreCompany\<close>.  The clock is a function \<open>clk\<close>: reading \<open>0\<close> stamps
  \<^verbatim>\<open>ScoredAt\<close>, and the condition evaluated \<open>k\<close>-th (counting from one, through requirements,
  exclusions and rules) reads \<open>clk k\<close>.  The error result of the Go function is always
  nil and is left out.
\<close>

definition requirementDetail :: "golib \<Rightarrow> Requirement \<Rightarrow> bool \<times> gvalue \<Rightarrow> ScoreDetail" where
  "requirementDetail lib req outcome =
     (if \<not> fst outcome then
        \<lparr> Points = 0, Triggered = False,
          DetailDescription = ''REQUIREMENT: '' @ Description req,
          DetailValue = sprintv lib (snd outcome) \<rparr>
      else
        \<lparr> Points = 0, Triggered = True,
          DetailDescription = ''REQUIREMENT MET: '' @ Description req,
          DetailValue = sprintv lib (snd outcome) \<rparr>)"

definition exclusionDetail :: "golib \<Rightarrow> Requirement \<Rightarrow> bool \<times> gvalue \<Rightarrow> ScoreDetail" where
  "exclusionDetail lib exclusion outcome =
     (if fst outcome then
        \<lparr> Points = 0, Triggered = True,
          DetailDescription = ''EXCLUSION VIOLATED: '' @ Description exclusion,
          DetailValue = sprintv lib (snd outcome) \<rparr>
      else
        \<lparr> Points = 0, Triggered = False,
          DetailDescription = ''EXCLUSION OK: '' @ Description exclusion,
          DetailValue = sprintv lib (snd outcome) \<rparr>)"

fun checkRequirements ::
  "golib \<Rightarrow> (nat \<Rightarrow> time) \<Rightarrow> companyData \<Rightarrow> nat \<Rightarrow> Requirement list \<Rightarrow> ScoreResult \<Rightarrow> ScoreResult"
where
  "checkRequirements lib clk data k [] result = result"
| "checkRequirements lib clk data k (req # reqs) result =
     (let outcome = evaluateCondition lib (clk k) data (Field req) (Operator req) (Value req);
          detail = requirementDetail lib req outcome;
          result1 = (if \<not> fst outcome then result \<lparr> RequirementsMet := False \<rparr> else result)
      in checkRequirements lib clk data (Suc k) reqs
           (result1 \<lparr> Breakdown := (Breakdown result1)(Field req @ ''_requirement'' \<mapsto> detail) \<rparr>))"

fun checkExclusions ::
  "golib \<Rightarrow> (nat \<Rightarrow> time) \<Rightarrow> companyData \<Rightarrow> nat \<Rightarrow> Requirement list \<Rightarrow> ScoreResult \<Rightarrow> ScoreResult"
where
  "checkExclusions lib clk data k [] result = result"
| "checkExclusions lib clk data k (exclusion # exclusions) result =
     (let outcome = evaluateCondition lib (clk k) data
                      (Field exclusion) (Operator exclusion) (Value exclusion);
          detail = exclusionDetail lib exclusion outcome;
          result1 = (if fst outcome then result \<lparr> RequirementsMet := False \<rparr> else result)
      in checkExclusions lib clk data (Suc k) exclusions
           (result1 \<lparr> Breakdown := (Breakdown result1)(Field exclusion @ ''_exclusion'' \<mapsto> detail) \<rparr>))"

fun applyRules ::
  "golib \<Rightarrow> (nat \<Rightarrow> time) \<Rightarrow> companyData \<Rightarrow> nat \<Rightarrow> ScoringRule list \<Rightarrow> ScoreResult \<Rightarrow> ScoreResult"
where
  "applyRules lib clk data k [] result = result"
| "applyRules lib clk data k (rule # rules) result =
     (let outcome = evaluateCondition lib (clk k) data (Field rule) (Operator rule) (Value rule);
          triggered = fst outcome;
          detail = \<lparr> Points = (if triggered then Weight rule else 0), Triggered = triggered,
                     DetailDescription = Description rule,
                     DetailValue = sprintv lib (snd outcome) \<rparr>;
          result1 = (if triggered then result \<lparr> Score := Score result + Weight rule \<rparr> else result)
      in applyRules lib clk data (Suc k) rules
           (result1 \<lparr> Breakdown := (Breakdown result1)(Field rule \<mapsto> detail) \<rparr>))"

definition ScoreCompany :: "golib \<Rightarrow> (nat \<Rightarrow> time) \<Rightarrow> companyData \<Rightarrow> ICPModel \<Rightarrow> ScoreResult" where
  "ScoreCompany lib clk data model =
     (let result0 = \<lparr> CompanyID = [], ScoringModelID = ID model, Score = 0, Qualified = False,
                      RequirementsMet = True, Breakdown = Map.empty, ScoredAt = clk 0 \<rparr>;
          n = length (Requirements model);
          m = length (Exclusions model);
          result1 = checkRequirements lib clk data 1 (Requirements model) result0;
          result2 = checkExclusions lib clk data (1 + n) (Exclusions model) result1
      in if RequirementsMet result2 then
           (let result3 = applyRules lib clk data (1 + n + m) (Rules model) result2
            in result3 \<lparr> Qualified := (Score result3 \<ge> MinScore model) \<rparr>)
         else result2)"

text \<open>
  The outcome of the \<open>i\<close>-th requirement and of the \<open>j\<close>-th exclusion of a model, as
  \<^verbatim>\<open>ScoreCompany\<close> evaluates them, and the breakdown entries that record them.
\<close>

definition requirementOutcome ::
  "golib \<Rightarrow> (nat \<Rightarrow> time) \<Rightarrow> companyData \<Rightarrow> ICPModel \<Rightarrow> nat \<Rightarrow> bool \<times> gvalue" where
  "requirementOutcome lib clk data model i =
     (let req = Requirements model ! i
      in evaluateCondition lib (clk (1 + i)) data (Field req) (Operator req) (Value req))"

definition exclusionOutcome ::
  "golib \<Rightarrow> (nat \<Rightarrow> time) \<Rightarrow> companyData \<Rightarrow> ICPModel \<Rightarrow> nat \<Rightarrow> bool \<times> gvalue" where
  "exclusionOutcome lib clk data model j =
     (let exclusion = Exclusions model ! j
      in evaluateCondition lib (clk (1 + length (Requirements model) + j)) data
           (Field exclusion) (Operator exclusion) (Value exclusion))"

definition gated :: "golib \<Rightarrow> (nat \<Rightarrow> time) \<Rightarrow> companyData \<Rightarrow> ICPModel \<Rightarrow> bool" where
  "gated lib clk data model =
     ((\<exists>i < length (Requirements model). \<not> fst (requirementOutcome lib clk data model i))
      \<or> (\<exists>j < length (Exclusions model). fst (exclusionOutcome lib clk data model j)))"

definition recordsRequirement ::
  "golib \<Rightarrow> (nat \<Rightarrow> time) \<Rightarrow> companyData \<Rightarrow> ICPModel \<Rightarrow> ScoreResult \<Rightarrow> nat \<Rightarrow> bool" where
  "recordsRequirement lib clk data model result i =
     (Breakdown result (Field (Requirements model ! i) @ ''_requirement'') =
        Some (requirementDetail lib (Requirements model ! i)
                (requirementOutcome lib clk data model i)))"

definition recordsExclusion ::
  "golib \<Rightarrow> (nat \<Rightarrow> time) \<Rightarrow> companyData \<Rightarrow> ICPModel \<Rightarrow> ScoreResult \<Rightarrow> nat \<Rightarrow> bool" where
  "recordsExclusion lib clk data model result j =
     (Breakdown result (Field (Exclusions model ! j) @ ''_exclusion'') =
        Some (exclusionDetail lib (Exclusions model ! j)
                (exclusionOutcome lib clk data model j)))"

text \<open>The last condition of a list that names a field: no later one names it too.\<close>

definition lastOnField :: "Requirement list \<Rightarrow> nat \<Rightarrow> bool" where
  "lastOnField conds i = (\<forall>j < length conds. i < j \<longrightarrow> Field (conds ! j) \<noteq> Field (conds ! i))"

text \<open>
  The reading of a date field that the delinquency fields go by: the moment it holds,
  or \<open>None\<close> when the field is absent, nil, not a date or not parsable.
\<close>

definition dateOf :: "golib \<Rightarrow> companyData \<Rightarrow> string \<Rightarrow> time option" where
  "dateOf lib data dateField =
     (case data dateField of
        Some (VTime t) \<Rightarrow> Some t
      | Some (VTimePtr p) \<Rightarrow> p
      | Some (VString s) \<Rightarrow> parseDate lib s
      | _ \<Rightarrow> None)"

text \<open>A month of 30.44 days, in nanoseconds.\<close>

definition monthNanos :: int where
  "monthNanos = 2630016000000000"

definition olderThanMonths :: "time \<Rightarrow> time \<Rightarrow> int \<Rightarrow> bool" where
  "olderThanMonths now t months = (now - t > months * monthNanos)"

definition delinquentSpec :: "golib \<Rightarrow> time \<Rightarrow> companyData \<Rightarrow> string \<Rightarrow> int \<Rightarrow> bool" where
  "delinquentSpec lib now data dateField months =
     (case dateOf lib data dateField of
        None \<Rightarrow> True
      | Some t \<Rightarrow> olderThanMonths now t months)"

text \<open>A sample behaviour of the library functions, for concrete evaluations.\<close>

definition sampleLib :: golib where
  "sampleLib =
     \<lparr> sprintv = (\<lambda>v. case v of
                      VNil \<Rightarrow> ''<nil>''
                    | VBool b \<Rightarrow> (if b then ''true'' else ''false'')
                    | VString s \<Rightarrow> s
                    | _ \<Rightarrow> ''?''),
       parseDate = (\<lambda>s. if s = ''2024-01-01'' then Some 63839664000000000000 else None),
       matchString = (\<lambda>pattern s. None) \<rparr>"

subsection \<open>Example inputs of the scoring engine\<close>

text \<open>
  A company in the Pink tier scored against a model that requires the Expert Market and
  excludes caveat-emptor companies; the company that the engine's default model
  qualifies; and a model with two requirements on one field.
\<close>

definition pinkCompany :: companyData where
  "pinkCompany =
     [''market_tier'' \<mapsto> VString ''OTC Pink'',
      ''quote_status'' \<mapsto> VString ''Ineligible for solicited quotes'',
      ''caveat_emptor'' \<mapsto> VBool True]"

definition expertCompany :: companyData where
  "expertCompany =
     [''market_tier'' \<mapsto> VString ''Expert Market'',
      ''quote_status'' \<mapsto> VString ''Ineligible for solicited quotes'',
      ''profile_verified'' \<mapsto> VBool False]"

definition expertModel :: ICPModel where
  "expertModel =
     \<lparr> ID = ''double-black-diamond'', Name = ''Double Black Diamond'',
       ModelDescription = [], Version = 1,
       Requirements =
         [\<lparr> Field = ''market_tier'', Operator = ''equals'', Value = VString ''Expert Market'',
            Description = ''Must be in Expert Market tier'' \<rparr>,
          \<lparr> Field = ''quote_status'', Operator = ''contains'', Value = VString ''Ineligible'',
            Description = ''Must be ineligible for solicited quotes'' \<rparr>],
       Exclusions =
         [\<lparr> Field = ''caveat_emptor'', Operator = ''is_true'', Value = VNil,
            Description = ''Must not be caveat emptor'' \<rparr>],
       Rules =
         [\<lparr> Field = ''delinquent_10k'', Operator = [], Value = VNil,
            Description = ''Delinquent 10-K filing (>15 months)'', Weight = 1 \<rparr>,
          \<lparr> Field = ''delinquent_10q'', Operator = [], Value = VNil,
            Description = ''Delinquent 10-Q filing (>6 months)'', Weight = 1 \<rparr>,
          \<lparr> Field = ''no_verified_profile'', Operator = [], Value = VNil,
            Description = ''Profile not verified'', Weight = 1 \<rparr>],
       MinScore = 3, IsActive = True, CreatedAt = 0, UpdatedAt = 0 \<rparr>"

definition twiceModel :: ICPModel where
  "twiceModel =
     \<lparr> ID = ''twice'', Name = ''Two requirements on one field'',
       ModelDescription = [], Version = 1,
       Requirements =
         [\<lparr> Field = ''market_tier'', Operator = ''equals'', Value = VString ''Expert Market'',
            Description = ''Must be in Expert Market tier'' \<rparr>,
          \<lparr> Field = ''market_tier'', Operator = ''contains'', Value = VString ''Pink'',
            Description = ''Must name a Pink tier'' \<rparr>],
       Exclusions = [],
       Rules = [],
       MinScore = 0, IsActive = True, CreatedAt = 0, UpdatedAt = 0 \<rparr>"

definition staleCompany :: companyData where
  "staleCompany = [''last_10q_date'' \<mapsto> VString ''2024-01-01'',
                   ''last_filing_date'' \<mapsto> VString ''not a date'']"

section \<open>The fetch clients (internal/scraper/oxylabs\_client.go, client.go)\<close>

text \<open>
  A Go error is a value of \<open>fetch_error\<close>: one constructor per \<^verbatim>\<open>fmt.Errorf\<close> of the two
  clients, with the text of the wrapped library error or the status code it prints.
  \<open>ContextError\<close> is \<^verbatim>\<open>ctx.Err()\<close>, which the rate-limited client returns as it is.
\<close>

datatype fetch_error =
    MarshalFailed string
  | CreateRequestFailed string
  | PerformFailed string
  | ReadFailed string
  | UnexpectedStatus int string
  | ParseResponseFailed string
  | NoResults
  | TargetStatus int
  | ParseHTMLFailed string
  | DirectStatus int
  | DirectParseFailed string
  | ContextError string




record ContextParam =
  Key :: string
  ParamValue :: bool

record OxyLabsRequest =
  Source :: string
  RequestURL :: string
  UserAgent :: string
  Render :: string
  Context :: "ContextParam list"

record OxyLabsResult =
  Content :: string
  StatusCode :: int
  ResultURL :: string
  TaskID :: string

text \<open>
  What \<^verbatim>\<open>httpClient.Do\<close> and \<^verbatim>\<open>io.ReadAll\<close> give for one request: a transport error, or
  a response with its status code and either the error of reading the body or the body.
\<close>

datatype http_reply =
    TransportError string
  | Reply int "string + string"

text \<open>
  The surroundings of the proxy client, left open: \<^verbatim>\<open>json.Marshal\<close> of one request and
  of a batch (\<open>Inl\<close> is the error's text), the error of \<^verbatim>\<open>http.NewRequestWithContext\<close>
  if it refuses the endpoint or the context (\<open>None\<close> is success), the proxy's answer to a body given the bodies sent before,
  \<^verbatim>\<open>json.Unmarshal\<close> of the response envelope, and \<^verbatim>\<open>goquery.NewDocumentFromReader\<close>.
  The type \<open>'doc\<close> is \<^verbatim>\<open>*goquery.Document\<close>.  The state of the proxy client is the list of
  bodies it has posted.
\<close>

record 'doc proxy =
  marshalRequest :: "OxyLabsRequest \<Rightarrow> string + string"
  marshalBatch :: "OxyLabsRequest list \<Rightarrow> string + string"
  newRequest :: "string \<Rightarrow> string option"
  roundTrip :: "string list \<Rightarrow> string \<Rightarrow> http_reply"
  unmarshalResponse :: "string \<Rightarrow> string + OxyLabsResult list"
  newDocument :: "string \<Rightarrow> string + 'doc"

definition oxyRequest :: "string \<Rightarrow> OxyLabsRequest" where
  "oxyRequest url =
     \<lparr> Source = ''universal'', RequestURL = url,
       UserAgent = ''Mozilla/5.0 (Windows NT 10.0; Win64; x64) AppleWebKit/537.36 (KHTML, like Gecko) Chrome/91.0.4472.124 Safari/537.36'',
       Render = ''html'',
       Context = [\<lparr> Key = ''follow_redirects'', ParamValue = True \<rparr>,
                  \<lparr> Key = ''return_only_content'', ParamValue = True \<rparr>] \<rparr>"

text \<open>The last two checks of \<^verbatim>\<open>Get\<close>, which \<^verbatim>\<open>GetBatch\<close> repeats for each result: the
  status code of the target page, then the parse of its content.\<close>

definition pageOutcome :: "'doc proxy \<Rightarrow> OxyLabsResult \<Rightarrow> fetch_error + 'doc" where
  "pageOutcome px result =
     (if StatusCode result \<noteq> 200 then Inl (TargetStatus (StatusCode result))
      else (case newDocument px (Content result) of
              Inl e \<Rightarrow> Inl (ParseHTMLFailed e)
            | Inr doc \<Rightarrow> Inr doc))"

text \<open>\<^verbatim>\<open>OxyLabsClient.Get\<close>: the result and the bodies posted after the call.\<close>

definition OxyGet ::
  "'doc proxy \<Rightarrow> string \<Rightarrow> string list \<Rightarrow> (fetch_error + 'doc) \<times> string list" where
  "OxyGet px url sent =
     (case marshalRequest px (oxyRequest url) of
        Inl e \<Rightarrow> (Inl (MarshalFailed e), sent)
      | Inr requestBody \<Rightarrow>
          (case newRequest px requestBody of
             Some e \<Rightarrow> (Inl (CreateRequestFailed e), sent)
           | None \<Rightarrow>
               (case roundTrip px sent requestBody of
                  TransportError e \<Rightarrow> (Inl (PerformFailed e), sent @ [requestBody])
                | Reply status (Inl e) \<Rightarrow> (Inl (ReadFailed e), sent @ [requestBody])
                | Reply status (Inr respBody) \<Rightarrow>
                    (if status \<noteq> 200 then Inl (UnexpectedStatus status respBody)
                     else (case unmarshalResponse px respBody of
                             Inl e \<Rightarrow> Inl (ParseResponseFailed e)
                           | Inr [] \<Rightarrow> Inl NoResults
                           | Inr (result # rest) \<Rightarrow> pageOutcome px result),
                     sent @ [requestBody]))))"

text \<open>The fallback loop of \<^verbatim>\<open>GetBatch\<close>, which the source writes out five times.\<close>

fun fallback ::
  "'doc proxy \<Rightarrow> string list \<Rightarrow> (string \<Rightarrow> 'doc option) \<Rightarrow> (string \<Rightarrow> fetch_error option)
   \<Rightarrow> string list
   \<Rightarrow> ((string \<Rightarrow> 'doc option) \<times> (string \<Rightarrow> fetch_error option)) \<times> string list" where
  "fallback px [] docs errors sent = ((docs, errors), sent)"
| "fallback px (url # urls) docs errors sent =
     (case OxyGet px url sent of
        (Inl err, sent') \<Rightarrow> fallback px urls docs (errors(url \<mapsto> err)) sent'
      | (Inr doc, sent') \<Rightarrow> fallback px urls (docs(url \<mapsto> doc)) errors sent')"

text \<open>The loop over the results of a decoded batch response; \<open>i\<close> is the loop index.\<close>

fun processResults ::
  "'doc proxy \<Rightarrow> string list \<Rightarrow> nat \<Rightarrow> OxyLabsResult list
   \<Rightarrow> (string \<Rightarrow> 'doc option) \<Rightarrow> (string \<Rightarrow> fetch_error option)
   \<Rightarrow> (string \<Rightarrow> 'doc option) \<times> (string \<Rightarrow> fetch_error option)" where
  "processResults px urls i [] docs errors = (docs, errors)"
| "processResults px urls i (result # results) docs errors =
     (if i \<ge> length urls then (docs, errors)
      else (let url = urls ! i in
            case pageOutcome px result of
              Inl err \<Rightarrow> processResults px urls (Suc i) results docs (errors(url \<mapsto> err))
            | Inr doc \<Rightarrow> processResults px urls (Suc i) results (docs(url \<mapsto> doc)) errors))"

definition GetBatch ::
  "'doc proxy \<Rightarrow> string list \<Rightarrow> string list
   \<Rightarrow> ((string \<Rightarrow> 'doc option) \<times> (string \<Rightarrow> fetch_error option)) \<times> string list" where
  "GetBatch px urls sent =
     (case marshalBatch px (map oxyRequest urls) of
        Inl e \<Rightarrow> fallback px urls Map.empty Map.empty sent
      | Inr requestBody \<Rightarrow>
          (case newRequest px requestBody of
             Some e \<Rightarrow> fallback px urls Map.empty Map.empty sent
           | None \<Rightarrow>
               (case roundTrip px sent requestBody of
                  TransportError e \<Rightarrow>
                    fallback px urls Map.empty Map.empty (sent @ [requestBody])
                | Reply status (Inl e) \<Rightarrow>
                    fallback px urls Map.empty Map.empty (sent @ [requestBody])
                | Reply status (Inr respBody) \<Rightarrow>
                    (case unmarshalResponse px respBody of
                       Inl e \<Rightarrow> fallback px urls Map.empty Map.empty (sent @ [requestBody])
                     | Inr results \<Rightarrow>
                         (processResults px urls 0 results Map.empty Map.empty,
                          sent @ [requestBody])))))"

subsection \<open>What the batch fetch is compared with\<close>

text \<open>
  The batch attempt fails at the batch level: the marshalling of the batch, the
  construction of the request, the transport call, the reading of the body or the
  decoding of the envelope fails.  \<open>afterBatch\<close> is the list of posted bodies once the
  attempt is over.
\<close>

definition batchFails :: "'doc proxy \<Rightarrow> string list \<Rightarrow> string list \<Rightarrow> bool" where
  "batchFails px urls sent =
     (case marshalBatch px (map oxyRequest urls) of
        Inl e \<Rightarrow> True
      | Inr requestBody \<Rightarrow>
          (case newRequest px requestBody of
             Some e \<Rightarrow> True
           | None \<Rightarrow>
               (case roundTrip px sent requestBody of
                  TransportError e \<Rightarrow> True
                | Reply status (Inl e) \<Rightarrow> True
                | Reply status (Inr respBody) \<Rightarrow> isl (unmarshalResponse px respBody))))"

definition afterBatch :: "'doc proxy \<Rightarrow> string list \<Rightarrow> string list \<Rightarrow> string list" where
  "afterBatch px urls sent =
     (case marshalBatch px (map oxyRequest urls) of
        Inl e \<Rightarrow> sent
      | Inr requestBody \<Rightarrow>
          (case newRequest px requestBody of
             Some e \<Rightarrow> sent
           | None \<Rightarrow> sent @ [requestBody]))"

text \<open>One single fetch per URL, one after the other: each URL with what its fetch
  returned, and the bodies posted at the end.\<close>

fun singleFetches ::
  "'doc proxy \<Rightarrow> string list \<Rightarrow> string list
   \<Rightarrow> (string \<times> (fetch_error + 'doc)) list \<times> string list" where
  "singleFetches px [] sent = ([], sent)"
| "singleFetches px (url # urls) sent =
     (let (r, sent') = OxyGet px url sent;
          (rs, sent'') = singleFetches px urls sent'
      in ((url, r) # rs, sent''))"

text \<open>The split of per-URL results into a map of documents and a map of errors; where a
  URL occurs twice, each map keeps the last result of its kind.\<close>

definition successes :: "(string \<times> (fetch_error + 'doc)) list \<Rightarrow> (string \<times> 'doc) list" where
  "successes rs =
     List.map_filter (\<lambda>(u, r). case r of Inl e \<Rightarrow> None | Inr d \<Rightarrow> Some (u, d)) rs"

definition failures :: "(string \<times> (fetch_error + 'doc)) list \<Rightarrow> (string \<times> fetch_error) list" where
  "failures rs =
     List.map_filter (\<lambda>(u, r). case r of Inl e \<Rightarrow> Some (u, e) | Inr d \<Rightarrow> None) rs"

definition splitResults ::
  "(string \<times> (fetch_error + 'doc)) list
   \<Rightarrow> (string \<Rightarrow> 'doc option) \<times> (string \<Rightarrow> fetch_error option)" where
  "splitResults rs = (map_of (rev (successes rs)), map_of (rev (failures rs)))"

text \<open>The proxy answers a body the same way whatever was posted before.\<close>

definition stateless :: "'doc proxy \<Rightarrow> bool" where
  "stateless px = (\<forall>sent sent' body. roundTrip px sent body = roundTrip px sent' body)"

text \<open>The per-URL results of a decoded batch response: the \<open>i\<close>-th result goes with
  the \<open>i\<close>-th URL, and results beyond the URLs are ignored.\<close>

definition positional ::
  "'doc proxy \<Rightarrow> string list \<Rightarrow> OxyLabsResult list \<Rightarrow> (string \<times> (fetch_error + 'doc)) list" where
  "positional px urls results = map (\<lambda>(u, r). (u, pageOutcome px r)) (zip urls results)"

subsection \<open>The rate-limited client (client.go)\<close>










subsection \<open>Example surroundings of the clients\<close>

text \<open>
  A proxy that answers a single request for URL \<open>u\<close> with one result: status 404 for
  the URL \<^verbatim>\<open>missing\<close>, else status 200 with \<open>u\<close> as content; documents are their own
  content.  To a batch it answers, by \<open>mode\<close>: with a body that does not decode, with two
  results whatever the number of URLs, or with status 500 and a body that decodes to no
  results.
\<close>

datatype batch_mode = Malformed | TwoResults | ServerError

definition resultFor :: "string \<Rightarrow> OxyLabsResult" where
  "resultFor u =
     \<lparr> Content = u, StatusCode = (if u = ''missing'' then 404 else 200), ResultURL = u,
       TaskID = [] \<rparr>"

definition sampleProxy :: "batch_mode \<Rightarrow> string proxy" where
  "sampleProxy mode =
     \<lparr> marshalRequest = (\<lambda>r. Inr (RequestURL r)),
       marshalBatch = (\<lambda>rs. Inr ''batch''),
       newRequest = (\<lambda>body. None),
       roundTrip = (\<lambda>sent body.
          if body = ''batch'' then
            (case mode of
               Malformed \<Rightarrow> Reply 200 (Inr ''garbage'')
             | TwoResults \<Rightarrow> Reply 200 (Inr ''two'')
             | ServerError \<Rightarrow> Reply 500 (Inr ''none''))
          else Reply 200 (Inr body)),
       unmarshalResponse = (\<lambda>body.
          if body = ''garbage'' then Inl ''invalid character''
          else if body = ''two'' then Inr [resultFor ''a'', resultFor ''missing'']
          else if body = ''none'' then Inr []
          else Inr [resultFor body]),
       newDocument = (\<lambda>content. Inr content) \<rparr>"





section \<open>The scraper (internal/scraper/scraper.go)\<close>




definition pageURLs :: "string \<Rightarrow> string list" where
  "pageURLs ticker =
     [''https://www.otcmarkets.com/stock/'' @ ticker @ ''/overview'',
      ''https://www.otcmarkets.com/stock/'' @ ticker @ ''/financials'',
      ''https://www.otcmarkets.com/stock/'' @ ticker @ ''/disclosure'']"




subsection \<open>What the scraper is compared with\<close>









section \<open>The scoring pipeline (internal/services/scoring\_pipeline.go)\<close>

text \<open>
  The lifecycle of the pipeline is modelled as a machine of atomic actions.  The state
  holds the fields the lifecycle uses (\<^verbatim>\<open>isRunning\<close>; whether \<^verbatim>\<open>stopChan\<close>, made once by
  \<^verbatim>\<open>NewScoringPipeline\<close>, has been closed; the counter of the wait group; whether the mutex
  is held by a \<^verbatim>\<open>Stop\<close> that waits in \<^verbatim>\<open>wg.Wait()\<close>), the background goroutines that
  \<^verbatim>\<open>Start\<close> has launched, each with its place in \<^verbatim>\<open>runPipeline\<close> and the number of scoring
  cycles it has executed, and whether a panic in a goroutine has ended the process.  A
  scoring cycle itself (\<^verbatim>\<open>executeScoringCycle\<close>) touches none of these fields and is
  counted only.
\<close>

record PipelineConfig =
  BatchSize :: int
  IntervalMinutes :: int
  MaxConcurrent :: int
  ProcessNewOnly :: bool
  RescoreOlderThanDays :: int

datatype loop_pc = Starting | Selecting | Exited | Panicked

record loop =
  pc :: loop_pc
  cycles :: nat
  config :: PipelineConfig

record ScoringPipeline =
  isRunning :: bool
  stopChanClosed :: bool
  wg :: nat
  mutexHeld :: bool
  loops :: "loop list"
  crashed :: bool

definition NewScoringPipeline :: ScoringPipeline where
  "NewScoringPipeline =
     \<lparr> isRunning = False, stopChanClosed = False, wg = 0, mutexHeld = False, loops = [],
       crashed = False \<rparr>"

definition DefaultPipelineConfig :: PipelineConfig where
  "DefaultPipelineConfig =
     \<lparr> BatchSize = 50, IntervalMinutes = 60, MaxConcurrent = 10, ProcessNewOnly = False,
       RescoreOlderThanDays = 7 \<rparr>"

text \<open>
  The atomic actions: a call of \<^verbatim>\<open>Start\<close>; a call of \<^verbatim>\<open>Stop\<close> up to its return or up to
  \<^verbatim>\<open>wg.Wait()\<close>; the return of a waiting \<^verbatim>\<open>Stop\<close>; and for the goroutine launched \<open>i\<close>-th,
  the creation of its ticker with its immediate cycle, a \<^verbatim>\<open>select\<close> that takes the stop
  case, and a \<^verbatim>\<open>select\<close> that takes a tick and runs a cycle.  Go's \<^verbatim>\<open>select\<close> takes any
  case that is ready; whether a tick is ready is up to the clock, so the tick action is
  always possible for a goroutine at its \<^verbatim>\<open>select\<close>.
\<close>

datatype action =
    DoStart PipelineConfig
  | DoStop
  | StopWaitDone
  | LoopBegin nat
  | LoopSelectStop nat
  | LoopSelectTick nat

datatype call_result = Ok | Failed string | Panics string

datatype outcome = Returns call_result | Waits | Internal

definition updateLoop :: "nat \<Rightarrow> (loop \<Rightarrow> loop) \<Rightarrow> ScoringPipeline \<Rightarrow> ScoringPipeline" where
  "updateLoop i f p = p \<lparr> loops := (loops p)[i := f (loops p ! i)] \<rparr>"

definition loopAt :: "ScoringPipeline \<Rightarrow> nat \<Rightarrow> loop_pc \<Rightarrow> bool" where
  "loopAt p i place = (i < length (loops p) \<and> pc (loops p ! i) = place)"

text \<open>\<^verbatim>\<open>Start\<close>, under the mutex.\<close>

definition Start :: "PipelineConfig \<Rightarrow> ScoringPipeline \<Rightarrow> outcome \<times> ScoringPipeline" where
  "Start cfg p =
     (if isRunning p then (Returns (Failed ''pipeline is already running''), p)
      else (Returns Ok,
            p \<lparr> isRunning := True, wg := wg p + 1,
                loops := loops p @ [\<lparr> pc = Starting, cycles = 0, config = cfg \<rparr>] \<rparr>))"

text \<open>\<^verbatim>\<open>Stop\<close>, up to \<^verbatim>\<open>wg.Wait()\<close>.  Closing a closed channel panics; the deferred unlock
  releases the mutex and nothing else has changed.\<close>

definition Stop :: "ScoringPipeline \<Rightarrow> outcome \<times> ScoringPipeline" where
  "Stop p =
     (if \<not> isRunning p then (Returns (Failed ''pipeline is not running''), p)
      else if stopChanClosed p then (Returns (Panics ''close of closed channel''), p)
      else (Waits, p \<lparr> stopChanClosed := True, mutexHeld := True \<rparr>))"

text \<open>The rest of \<^verbatim>\<open>Stop\<close>, once the wait group is at zero.\<close>

definition StopReturn :: "ScoringPipeline \<Rightarrow> outcome \<times> ScoringPipeline" where
  "StopReturn p = (Returns Ok, p \<lparr> isRunning := False, mutexHeld := False \<rparr>)"


text \<open>The head of \<^verbatim>\<open>runPipeline\<close>: \<^verbatim>\<open>time.NewTicker\<close> panics on an interval that is not
  positive, which ends the process; else the immediate cycle runs.\<close>

definition loopBegin :: "nat \<Rightarrow> ScoringPipeline \<Rightarrow> ScoringPipeline" where
  "loopBegin i p =
     (if IntervalMinutes (config (loops p ! i)) \<le> 0
      then (updateLoop i (\<lambda>l. l \<lparr> pc := Panicked \<rparr>) p) \<lparr> crashed := True \<rparr>
      else updateLoop i (\<lambda>l. l \<lparr> pc := Selecting, cycles := cycles l + 1 \<rparr>) p)"

definition loopStop :: "nat \<Rightarrow> ScoringPipeline \<Rightarrow> ScoringPipeline" where
  "loopStop i p = (updateLoop i (\<lambda>l. l \<lparr> pc := Exited \<rparr>) p) \<lparr> wg := wg p - 1 \<rparr>"

definition loopTick :: "nat \<Rightarrow> ScoringPipeline \<Rightarrow> ScoringPipeline" where
  "loopTick i p = updateLoop i (\<lambda>l. l \<lparr> cycles := cycles l + 1 \<rparr>) p"

text \<open>An action in a state: \<open>None\<close> when the action cannot happen there.\<close>

fun perform :: "action \<Rightarrow> ScoringPipeline \<Rightarrow> (outcome \<times> ScoringPipeline) option" where
  "perform (DoStart cfg) p =
     (if crashed p \<or> mutexHeld p then None else Some (Start cfg p))"
| "perform DoStop p =
     (if crashed p \<or> mutexHeld p then None else Some (Stop p))"
| "perform StopWaitDone p =
     (if \<not> crashed p \<and> mutexHeld p \<and> wg p = 0 then Some (StopReturn p) else None)"
| "perform (LoopBegin i) p =
     (if \<not> crashed p \<and> loopAt p i Starting then Some (Internal, loopBegin i p) else None)"
| "perform (LoopSelectStop i) p =
     (if \<not> crashed p \<and> loopAt p i Selecting \<and> stopChanClosed p
      then Some (Internal, loopStop i p) else None)"
| "perform (LoopSelectTick i) p =
     (if \<not> crashed p \<and> loopAt p i Selecting then Some (Internal, loopTick i p) else None)"

text \<open>A schedule of actions from a state: the outcomes and the final state, or \<open>None\<close>
  when one of the actions cannot happen.\<close>

fun run :: "action list \<Rightarrow> ScoringPipeline \<Rightarrow> (outcome list \<times> ScoringPipeline) option" where
  "run [] p = Some ([], p)"
| "run (a # as) p =
     (case perform a p of
        None \<Rightarrow> None
      | Some (out, p') \<Rightarrow>
          (case run as p' of
             None \<Rightarrow> None
           | Some (outs, p'') \<Rightarrow> Some (out # outs, p'')))"



text \<open>Schedules for the examples: a start, a stop and a second start, each with the
  steps of its goroutine, followed by a second stop, or by a tick.\<close>

definition restartSchedule :: "action list" where
  "restartSchedule =
     [DoStart DefaultPipelineConfig, LoopBegin 0, DoStop, LoopSelectStop 0, StopWaitDone,
      DoStart DefaultPipelineConfig]"




section \<open>Properties of the health monitor\<close>

lemma runCalls_snoc: "runCalls (cs @ [c]) h = applyCall c (runCalls cs h)"
  by (induction cs arbitrary: h) simp_all

lemma afterReset_snoc:
  "afterReset (cs @ [c]) = (if c = CallReset then [] else afterReset cs @ [c])"
  by (simp add: afterReset_def)

lemma afterReset_Nil: "afterReset [] = []"
  by (simp add: afterReset_def)

lemma monitorInv_New: "monitorInv NewHealthMonitor"
  by (simp add: monitorInv_def NewHealthMonitor_def)

lemma monitorInv_apply: "monitorInv h \<Longrightarrow> monitorInv (applyCall c h)"
  by (cases c) (simp_all add: monitorInv_def RecordSuccess_def RecordFailure_def Reset_def Let_def)

lemma monitorInv_run: "monitorInv (runCalls cs NewHealthMonitor)"
  by (induction cs rule: rev_induct) (simp_all add: monitorInv_New runCalls_snoc monitorInv_apply)

lemma trailing_snoc:
  "trailingFailures (cs @ [c]) = (if isSuccess c then 0 else Suc (trailingFailures cs))"
  by (simp add: trailingFailures_def)

lemma counters_run:
  "totalRequests (runCalls cs NewHealthMonitor) = int (length (afterReset cs))
   \<and> successfulRequests (runCalls cs NewHealthMonitor) = int (length (filter isSuccess (afterReset cs)))
   \<and> failedRequests (runCalls cs NewHealthMonitor) = int (length (failuresOf (afterReset cs)))"
proof (induction cs rule: rev_induct)
  case Nil
  show ?case by (simp add: NewHealthMonitor_def afterReset_Nil failuresOf_def)
next
  case (snoc c cs)
  then show ?case
    by (cases c)
       (simp_all add: runCalls_snoc afterReset_snoc RecordSuccess_def RecordFailure_def
          Reset_def Let_def failuresOf_def)
qed

lemma visit_keeps:
  "IsHealthy (visitErrorType fs ty st) = IsHealthy st
   \<and> TotalRequests (visitErrorType fs ty st) = TotalRequests st
   \<and> SuccessfulRequests (visitErrorType fs ty st) = SuccessfulRequests st
   \<and> SuccessRate (visitErrorType fs ty st) = SuccessRate st
   \<and> ConsecutiveFailures (visitErrorType fs ty st) = ConsecutiveFailures st
   \<and> LastSuccessTime (visitErrorType fs ty st) = LastSuccessTime st
   \<and> RecentFailures (visitErrorType fs ty st) = RecentFailures st"
  by (simp add: visitErrorType_def split: option.split prod.split)

lemma fold_visit_keeps:
  "IsHealthy (fold (visitErrorType fs) tys st) = IsHealthy st
   \<and> TotalRequests (fold (visitErrorType fs) tys st) = TotalRequests st
   \<and> SuccessfulRequests (fold (visitErrorType fs) tys st) = SuccessfulRequests st
   \<and> SuccessRate (fold (visitErrorType fs) tys st) = SuccessRate st
   \<and> ConsecutiveFailures (fold (visitErrorType fs) tys st) = ConsecutiveFailures st
   \<and> LastSuccessTime (fold (visitErrorType fs) tys st) = LastSuccessTime st
   \<and> RecentFailures (fold (visitErrorType fs) tys st) = RecentFailures st"
  by (induction tys arbitrary: st) (simp_all add: visit_keeps)

lemma analyze_keeps:
  "IsHealthy (analyzeFailurePatterns h st) = IsHealthy st
   \<and> TotalRequests (analyzeFailurePatterns h st) = TotalRequests st
   \<and> SuccessfulRequests (analyzeFailurePatterns h st) = SuccessfulRequests st
   \<and> SuccessRate (analyzeFailurePatterns h st) = SuccessRate st
   \<and> ConsecutiveFailures (analyzeFailurePatterns h st) = ConsecutiveFailures st
   \<and> LastSuccessTime (analyzeFailurePatterns h st) = LastSuccessTime st
   \<and> RecentFailures (analyzeFailurePatterns h st) = RecentFailures st"
  by (simp add: analyzeFailurePatterns_def visit_keeps)

lemma Since_gt_Hour: "(Since now t > Hour) = (now - t > Hour)"
  by (auto simp: Since_def Hour_def minDuration_def maxDuration_def max_def min_def)

lemma status_counters:
  "TotalRequests (GetHealthStatus now h) = totalRequests h
   \<and> SuccessfulRequests (GetHealthStatus now h) = successfulRequests h
   \<and> ConsecutiveFailures (GetHealthStatus now h) = consecutiveFailures h
   \<and> LastSuccessTime (GetHealthStatus now h) =
       (if lastSuccessTime h = 0 then None else Some (lastSuccessTime h))
   \<and> SuccessRate (GetHealthStatus now h) =
       (if totalRequests h > 0
        then real_of_int (successfulRequests h) / real_of_int (totalRequests h) else 1)
   \<and> RecentFailures (GetHealthStatus now h) = recentFailures h"
  by (simp add: GetHealthStatus_def Let_def analyze_keeps checkStale_def checkConsecutive_def
        checkFailureRate_def IsZero_def)

lemma status_healthy:
  "IsHealthy (GetHealthStatus now h) =
     (\<not> (totalRequests h \<ge> 10 \<and> SuccessRate (GetHealthStatus now h) < 1 - failureThreshold h)
      \<and> \<not> consecutiveFailures h \<ge> consecutiveThreshold h
      \<and> \<not> (lastSuccessTime h \<noteq> 0 \<and> now - lastSuccessTime h > Hour))"
  by (simp add: GetHealthStatus_def Let_def analyze_keeps checkStale_def checkConsecutive_def
        checkFailureRate_def IsZero_def Since_gt_Hour)

lemma consecutive_run:
  "consecutiveFailures (runCalls cs NewHealthMonitor) = int (trailingFailures (afterReset cs))"
proof (induction cs rule: rev_induct)
  case Nil
  show ?case by (simp add: NewHealthMonitor_def afterReset_Nil trailingFailures_def)
next
  case (snoc c cs)
  then show ?case
    by (cases c)
       (simp_all add: runCalls_snoc afterReset_snoc RecordSuccess_def RecordFailure_def
          Reset_def Let_def trailing_snoc, simp add: trailingFailures_def)
qed

lemma lastSuccess_snoc:
  "lastSuccessOf (cs @ [c]) =
     (case c of CallSuccess now ticker \<Rightarrow> (if now = 0 then None else Some now)
      | _ \<Rightarrow> lastSuccessOf cs)"
  by (cases c) (simp_all add: lastSuccessOf_def)

lemma lastSuccess_Nil: "lastSuccessOf [] = None"
  by (simp add: lastSuccessOf_def)

lemma lastSuccess_run:
  "(if lastSuccessTime (runCalls cs NewHealthMonitor) = 0 then None
    else Some (lastSuccessTime (runCalls cs NewHealthMonitor))) = lastSuccessOf (afterReset cs)"
proof (induction cs rule: rev_induct)
  case Nil
  show ?case by (simp add: NewHealthMonitor_def afterReset_Nil lastSuccess_Nil)
next
  case (snoc c cs)
  show ?case
  proof (cases c)
    case (CallSuccess now ticker)
    then show ?thesis
      by (simp add: runCalls_snoc afterReset_snoc RecordSuccess_def lastSuccess_snoc)
  next
    case (CallFailure n1 n2 tk e u)
    then show ?thesis
      using snoc
      by (auto simp add: runCalls_snoc afterReset_snoc RecordFailure_def Let_def lastSuccess_snoc
            split: if_splits)
  next
    case CallReset
    then show ?thesis
      by (simp add: runCalls_snoc afterReset_snoc Reset_def lastSuccess_Nil)
  qed
qed

text \<open>
  Claim C3.  After any sequence of \<^verbatim>\<open>RecordSuccess\<close>, \<^verbatim>\<open>RecordFailure\<close> and
  \<^verbatim>\<open>Reset\<close> calls on a new monitor, the status reports the success rate as successful
  requests over total requests, and as exactly one when there were no requests; the
  counters it reports are those of the calls since the last reset; and it reports
  unhealthy exactly when the total is at least ten with a success rate below 0.8, or there
  are at least five consecutive failures, or a last success is set and lies more than an
  hour before the moment of the status call.
\<close>

theorem health_status_verdict:
  "let h = runCalls cs NewHealthMonitor; st = GetHealthStatus now h in
     SuccessRate st =
       (if TotalRequests st = 0 then 1
        else real_of_int (SuccessfulRequests st) / real_of_int (TotalRequests st))
     \<and> TotalRequests st = int (length (afterReset cs))
     \<and> SuccessfulRequests st = int (length (filter isSuccess (afterReset cs)))
     \<and> ConsecutiveFailures st = int (trailingFailures (afterReset cs))
     \<and> LastSuccessTime st = lastSuccessOf (afterReset cs)
     \<and> (IsHealthy st = False) =
         ((TotalRequests st \<ge> 10 \<and> SuccessRate st < 8 / 10)
          \<or> ConsecutiveFailures st \<ge> 5
          \<or> (\<exists>t. LastSuccessTime st = Some t \<and> now - t > Hour))"
proof -
  define h where "h = runCalls cs NewHealthMonitor"
  define st where "st = GetHealthStatus now h"
  have inv: "monitorInv h" unfolding h_def by (rule monitorInv_run)
  have cnt: "totalRequests h = int (length (afterReset cs))"
    "successfulRequests h = int (length (filter isSuccess (afterReset cs)))"
    unfolding h_def using counters_run [of cs] by simp_all
  have con: "consecutiveFailures h = int (trailingFailures (afterReset cs))"
    unfolding h_def by (rule consecutive_run)
  have f: "TotalRequests st = totalRequests h" "SuccessfulRequests st = successfulRequests h"
    "ConsecutiveFailures st = consecutiveFailures h"
    "LastSuccessTime st = (if lastSuccessTime h = 0 then None else Some (lastSuccessTime h))"
    "SuccessRate st = (if totalRequests h > 0
        then real_of_int (successfulRequests h) / real_of_int (totalRequests h) else 1)"
    unfolding st_def using status_counters [of now h] by simp_all
  have nonneg: "totalRequests h \<ge> 0" using cnt by simp
  have rate: "SuccessRate st =
       (if TotalRequests st = 0 then 1
        else real_of_int (SuccessfulRequests st) / real_of_int (TotalRequests st))"
    using f nonneg by auto
  have last: "LastSuccessTime st = lastSuccessOf (afterReset cs)"
    using f(4) lastSuccess_run [of cs] unfolding h_def by simp
  have thr: "1 - failureThreshold h = 8 / 10" "consecutiveThreshold h = 5"
    using inv by (simp_all add: monitorInv_def)
  have verdict: "(IsHealthy st = False) =
         ((TotalRequests st \<ge> 10 \<and> SuccessRate st < 8 / 10)
          \<or> ConsecutiveFailures st \<ge> 5
          \<or> (\<exists>t. LastSuccessTime st = Some t \<and> now - t > Hour))"
    unfolding st_def status_healthy [of now h] thr
    using f(1,3,4) unfolding st_def by auto
  show ?thesis
    using rate cnt con f(1,2,3) last verdict unfolding Let_def h_def st_def by simp
qed

text \<open>
  Claim C3 at a concrete run: one success and five failures.  The rate is one sixth, and
  the five consecutive failures make the monitor unhealthy.
\<close>

theorem health_status_verdict_witness:
  "IsHealthy (GetHealthStatus 60 (runCalls sixFailures NewHealthMonitor)) = False
   \<and> SuccessRate (GetHealthStatus 60 (runCalls sixFailures NewHealthMonitor)) = 1 / 6
   \<and> TotalRequests (GetHealthStatus 60 (runCalls sixFailures NewHealthMonitor)) = 6
   \<and> ConsecutiveFailures (GetHealthStatus 60 (runCalls sixFailures NewHealthMonitor)) = 5"
proof -
  have a: "afterReset sixFailures = sixFailures"
    by (simp add: afterReset_def sixFailures_def)
  have b: "length sixFailures = 6" "length (filter isSuccess sixFailures) = 1"
    "trailingFailures sixFailures = 5"
    by (simp_all add: sixFailures_def trailingFailures_def)
  show ?thesis
    using health_status_verdict [of sixFailures 60] unfolding Let_def a b by simp
qed

lemma failuresOf_snoc: "failuresOf (cs @ [c]) = failuresOf cs @ failureOf c"
  by (simp add: failuresOf_def)

lemma failuresOf_Nil: "failuresOf [] = []"
  by (simp add: failuresOf_def)

lemma drop_window_snoc:
  "tl (drop (length fs - 50) fs @ [f]) = drop (length (fs @ [f]) - 50) (fs @ [f])"
  if "length fs \<ge> 50"
proof -
  have ne: "drop (length fs - 50) fs \<noteq> []" using that by simp
  have "tl (drop (length fs - 50) fs @ [f]) = tl (drop (length fs - 50) fs) @ [f]"
    using ne by simp
  also have "tl (drop (length fs - 50) fs) = drop (Suc (length fs - 50)) fs"
    by (simp add: drop_Suc tl_drop)
  also have "Suc (length fs - 50) = length (fs @ [f]) - 50" using that by simp
  finally show ?thesis using that by simp
qed

lemma ring_run:
  "recentFailures (runCalls cs NewHealthMonitor) =
     drop (length (failuresOf (afterReset cs)) - 50) (failuresOf (afterReset cs))"
proof (induction cs rule: rev_induct)
  case Nil
  show ?case by (simp add: NewHealthMonitor_def afterReset_Nil failuresOf_Nil)
next
  case (snoc c cs)
  define h where "h = runCalls cs NewHealthMonitor"
  define fs where "fs = failuresOf (afterReset cs)"
  have inv: "maxRecentFailures h = 50"
    using monitorInv_run [of cs] by (simp add: monitorInv_def h_def)
  have ih: "recentFailures h = drop (length fs - 50) fs"
    using snoc by (simp add: h_def fs_def)
  show ?case
  proof (cases c)
    case (CallSuccess now ticker)
    then show ?thesis
      using ih
      by (simp add: runCalls_snoc afterReset_snoc failuresOf_snoc RecordSuccess_def
            h_def [symmetric] fs_def [symmetric])
  next
    case CallReset
    then show ?thesis
      by (simp add: runCalls_snoc afterReset_snoc failuresOf_Nil Reset_def)
  next
    case (CallFailure n1 n2 tk e u)
    define f where "f = \<lparr> Timestamp = n2, Ticker = tk, Error = e, URL = u \<rparr>"
    have new: "recentFailures (RecordFailure n1 n2 tk e u h) =
        (if length (recentFailures h @ [f]) > 50 then tl (recentFailures h @ [f])
         else recentFailures h @ [f])"
      using inv by (simp add: RecordFailure_def Let_def f_def)
    have goal: "recentFailures (RecordFailure n1 n2 tk e u h) =
        drop (length (fs @ [f]) - 50) (fs @ [f])"
    proof (cases "length fs \<ge> 50")
      case True
      then have "length (recentFailures h @ [f]) > 50" using ih by simp
      then show ?thesis using new ih drop_window_snoc [OF True, of f] by simp
    next
      case False
      then show ?thesis using new ih by simp
    qed
    show ?thesis
      using goal CallFailure
      by (simp add: runCalls_snoc afterReset_snoc failuresOf_snoc
            h_def [symmetric] fs_def [symmetric] f_def)
  qed
qed

text \<open>
  Claim C8.  After any sequence of calls the ring of recent failures holds at most 50
  records, and holds exactly the last 50 (or all, when fewer) of the failure records since
  the last reset, in the order of arrival; a failure recorded into a full ring drops the
  oldest record and appends the new one; a success leaves the ring alone and a reset
  empties it.
\<close>

theorem failure_ring_bounded:
  "let h = runCalls cs NewHealthMonitor;
       fs = failuresOf (afterReset cs);
       f = \<lparr> Timestamp = now2, Ticker = ticker, Error = errorMsg, URL = url \<rparr>
   in length (recentFailures h) \<le> 50
      \<and> recentFailures h = drop (length fs - 50) fs
      \<and> recentFailures (RecordFailure now1 now2 ticker errorMsg url h) =
          (if length (recentFailures h) < 50 then recentFailures h @ [f]
           else tl (recentFailures h) @ [f])
      \<and> recentFailures (RecordSuccess now1 ticker h) = recentFailures h
      \<and> recentFailures (Reset h) = []"
proof -
  define h where "h = runCalls cs NewHealthMonitor"
  define fs where "fs = failuresOf (afterReset cs)"
  have ring: "recentFailures h = drop (length fs - 50) fs"
    unfolding h_def fs_def by (rule ring_run)
  have len: "length (recentFailures h) \<le> 50" unfolding ring by simp
  have inv: "maxRecentFailures h = 50"
    using monitorInv_run [of cs] by (simp add: monitorInv_def h_def)
  have step: "recentFailures (RecordFailure now1 now2 ticker errorMsg url h) =
          (if length (recentFailures h) < 50
           then recentFailures h @ [\<lparr> Timestamp = now2, Ticker = ticker, Error = errorMsg, URL = url \<rparr>]
           else tl (recentFailures h) @ [\<lparr> Timestamp = now2, Ticker = ticker, Error = errorMsg, URL = url \<rparr>])"
  proof (cases "length (recentFailures h) < 50")
    case True
    then show ?thesis using inv by (simp add: RecordFailure_def Let_def)
  next
    case False
    then have "length (recentFailures h) = 50" using len by simp
    then have "recentFailures h \<noteq> []" by auto
    then show ?thesis using inv False by (simp add: RecordFailure_def Let_def)
  qed
  show ?thesis
    using ring len step
    by (simp add: Let_def h_def [symmetric] fs_def [symmetric] RecordSuccess_def Reset_def)
qed

lemma many_fs:
  "failuresOf (afterReset manyFailures) =
     map (\<lambda>n. \<lparr> Timestamp = int n, Ticker = ''T'', Error = ''error'', URL = [] \<rparr>) [0..<51]"
  by code_simp

text \<open>
  Claim C8 at a concrete run: after 51 failures the ring holds 50 records, the second to
  the last of the calls.
\<close>

theorem failure_ring_bounded_witness:
  "length (recentFailures (runCalls manyFailures NewHealthMonitor)) = 50
   \<and> hd (recentFailures (runCalls manyFailures NewHealthMonitor)) =
        \<lparr> Timestamp = 1, Ticker = ''T'', Error = ''error'', URL = [] \<rparr>
   \<and> last (recentFailures (runCalls manyFailures NewHealthMonitor)) =
        \<lparr> Timestamp = 50, Ticker = ''T'', Error = ''error'', URL = [] \<rparr>"
proof -
  have r: "recentFailures (runCalls manyFailures NewHealthMonitor) =
      map (\<lambda>n. \<lparr> Timestamp = int n, Ticker = ''T'', Error = ''error'', URL = [] \<rparr>) [1..<51]"
    using failure_ring_bounded [of manyFailures 0 "[]" "[]" "[]" 0] unfolding Let_def many_fs
    by (simp add: drop_map)
  show ?thesis unfolding r by (simp add: hd_map last_map)
qed

section \<open>Properties of the scoring engine\<close>

lemma monthsSince_gt:
  "(monthsSince now t > real_of_int n) = (Since now t > n * monthNanos)"
proof -
  have "(monthsSince now t > real_of_int n)
        = (real_of_int (Since now t) > real_of_int n * 2630016000000000)"
    by (simp add: monthsSince_def field_simps)
  also have "\<dots> = (real_of_int (Since now t) > real_of_int (n * 2630016000000000))"
    by simp
  also have "\<dots> = (Since now t > n * 2630016000000000)"
    by (simp only: of_int_less_iff)
  finally show ?thesis by (simp add: monthNanos_def)
qed

lemma Since_gt_bound:
  assumes "minDuration \<le> k" "k < maxDuration"
  shows "(Since now t > k) = (now - t > k)"
  using assms by (auto simp: Since_def max_def min_def)

lemma exceeds_iff_older:
  assumes "0 \<le> n" "n \<le> 3000"
  shows "(monthsSince now t > real_of_int n) = olderThanMonths now t n"
proof -
  have lo: "minDuration \<le> n * monthNanos"
    using assms by (simp add: minDuration_def monthNanos_def)
  have "n * monthNanos \<le> 3000 * monthNanos"
    using assms by (simp add: monthNanos_def)
  then have hi: "n * monthNanos < maxDuration"
    by (simp add: maxDuration_def monthNanos_def)
  show ?thesis
    unfolding monthsSince_gt olderThanMonths_def by (rule Since_gt_bound [OF lo hi])
qed

lemma evaluateDelinquency_spec:
  assumes "0 \<le> n" "n \<le> 3000"
  shows "evaluateDelinquency lib now data f n = delinquentSpec lib now data f n"
  unfolding evaluateDelinquency_def delinquentSpec_def dateOf_def
  by (simp add: exceeds_iff_older [OF assms] split: option.split gvalue.split)

text \<open>
  Claim C7.  Whatever operator and value a condition supplies, the computed fields
  \<^verbatim>\<open>delinquent_10k\<close>, \<^verbatim>\<open>delinquent_10q\<close> and \<^verbatim>\<open>no_recent_activity\<close> evaluate to true
  exactly when the date field \<^verbatim>\<open>last_10k_date\<close>, \<^verbatim>\<open>last_10q_date\<close>, \<^verbatim>\<open>last_filing_date\<close>
  respectively is absent, nil, not a date, not parsable, or more than 15, 6, 12 months
  (of 30.44 days) before the clock reading; the value reported is the date field.
\<close>

theorem computed_delinquency_fields:
  "evaluateCondition lib now data ''delinquent_10k'' operator expectedValue =
     (delinquentSpec lib now data ''last_10k_date'' 15, index data ''last_10k_date'')
   \<and> evaluateCondition lib now data ''delinquent_10q'' operator expectedValue =
     (delinquentSpec lib now data ''last_10q_date'' 6, index data ''last_10q_date'')
   \<and> evaluateCondition lib now data ''no_recent_activity'' operator expectedValue =
     (delinquentSpec lib now data ''last_filing_date'' 12, index data ''last_filing_date'')"
  by (simp add: evaluateCondition_def evaluateDelinquency_spec)


text \<open>
  Claim C7 at concrete inputs: a missing 10-K date, a 10-Q date three and seven months
  old, and a filing date that does not parse, under four different operators.
\<close>

theorem computed_delinquency_fields_witness:
  "fst (evaluateCondition sampleLib 63839664000000000000 staleCompany ''delinquent_10k''
          ''is_false'' (VBool False)) = True
   \<and> fst (evaluateCondition sampleLib (63839664000000000000 + 3 * monthNanos) staleCompany
          ''delinquent_10q'' ''equals'' (VString ''no'')) = False
   \<and> fst (evaluateCondition sampleLib (63839664000000000000 + 7 * monthNanos) staleCompany
          ''delinquent_10q'' ''equals'' (VString ''no'')) = True
   \<and> fst (evaluateCondition sampleLib 63839664000000000000 staleCompany ''no_recent_activity''
          ''regex'' VNil) = True"
  using computed_delinquency_fields
          [of sampleLib 63839664000000000000 staleCompany "''is_false''" "VBool False"]
        computed_delinquency_fields
          [of sampleLib "63839664000000000000 + 3 * monthNanos" staleCompany "''equals''" "VString ''no''"]
        computed_delinquency_fields
          [of sampleLib "63839664000000000000 + 7 * monthNanos" staleCompany "''equals''" "VString ''no''"]
        computed_delinquency_fields
          [of sampleLib 63839664000000000000 staleCompany "''regex''" VNil]
  by (simp add: delinquentSpec_def dateOf_def staleCompany_def sampleLib_def olderThanMonths_def
        monthNanos_def)


lemma key_suffix_distinct: "f @ ''_requirement'' \<noteq> g @ ''_exclusion''"
proof
  assume "f @ ''_requirement'' = g @ ''_exclusion''"
  then have "last (f @ ''_requirement'') = last (g @ ''_exclusion'')" by simp
  then show False by simp
qed

lemma checkRequirements_frame:
  "Score (checkRequirements lib clk data k reqs r) = Score r
   \<and> Qualified (checkRequirements lib clk data k reqs r) = Qualified r"
  by (induction reqs arbitrary: k r) (simp_all add: Let_def)

lemma checkExclusions_frame:
  "Score (checkExclusions lib clk data k exs r) = Score r
   \<and> Qualified (checkExclusions lib clk data k exs r) = Qualified r"
  by (induction exs arbitrary: k r) (simp_all add: Let_def)

lemma applyRules_frame:
  "RequirementsMet (applyRules lib clk data k rules r) = RequirementsMet r"
  by (induction rules arbitrary: k r) (simp_all add: Let_def)

lemma checkRequirements_met:
  "RequirementsMet (checkRequirements lib clk data k reqs r) =
     (RequirementsMet r \<and>
      (\<forall>i < length reqs. fst (evaluateCondition lib (clk (k + i)) data
          (Field (reqs ! i)) (Operator (reqs ! i)) (Value (reqs ! i)))))"
proof (induction reqs arbitrary: k r)
  case Nil
  show ?case by simp
next
  case (Cons q reqs)
  show ?case
    by (simp add: Let_def Cons.IH All_less_Suc2)
qed

lemma checkExclusions_met:
  "RequirementsMet (checkExclusions lib clk data k exs r) =
     (RequirementsMet r \<and>
      (\<forall>j < length exs. \<not> fst (evaluateCondition lib (clk (k + j)) data
          (Field (exs ! j)) (Operator (exs ! j)) (Value (exs ! j)))))"
proof (induction exs arbitrary: k r)
  case Nil
  show ?case by simp
next
  case (Cons q exs)
  show ?case
    by (simp add: Let_def Cons.IH All_less_Suc2)
qed

lemma checkRequirements_other:
  "key \<notin> (\<lambda>q. Field q @ ''_requirement'') ` set reqs \<Longrightarrow>
   Breakdown (checkRequirements lib clk data k reqs r) key = Breakdown r key"
  by (induction reqs arbitrary: k r) (auto simp add: Let_def)

lemma checkExclusions_other:
  "key \<notin> (\<lambda>q. Field q @ ''_exclusion'') ` set exs \<Longrightarrow>
   Breakdown (checkExclusions lib clk data k exs r) key = Breakdown r key"
  by (induction exs arbitrary: k r) (auto simp add: Let_def)

lemma checkRequirements_dom:
  "dom (Breakdown (checkRequirements lib clk data k reqs r)) =
     dom (Breakdown r) \<union> (\<lambda>q. Field q @ ''_requirement'') ` set reqs"
  by (induction reqs arbitrary: k r) (auto simp add: Let_def)

lemma checkExclusions_dom:
  "dom (Breakdown (checkExclusions lib clk data k exs r)) =
     dom (Breakdown r) \<union> (\<lambda>q. Field q @ ''_exclusion'') ` set exs"
  by (induction exs arbitrary: k r) (auto simp add: Let_def)

lemma lastOnField_Cons_0:
  "lastOnField (q # qs) 0 \<Longrightarrow> Field q \<notin> Field ` set qs"
  unfolding lastOnField_def
proof
  assume a: "\<forall>j<length (q # qs). 0 < j \<longrightarrow> Field ((q # qs) ! j) \<noteq> Field ((q # qs) ! 0)"
  assume "Field q \<in> Field ` set qs"
  then obtain j where j: "j < length qs" "Field (qs ! j) = Field q"
    by (auto simp: in_set_conv_nth)
  from a [rule_format, of "Suc j"] j show False by simp
qed

lemma lastOnField_Cons_Suc:
  "lastOnField (q # qs) (Suc i) \<Longrightarrow> lastOnField qs i"
  unfolding lastOnField_def
proof (intro allI impI)
  fix j
  assume a: "\<forall>j<length (q # qs). Suc i < j \<longrightarrow> Field ((q # qs) ! j) \<noteq> Field ((q # qs) ! Suc i)"
  assume "j < length qs" "i < j"
  with a [rule_format, of "Suc j"] show "Field (qs ! j) \<noteq> Field (qs ! i)" by simp
qed

lemma checkRequirements_entry:
  "i < length reqs \<Longrightarrow> lastOnField reqs i \<Longrightarrow>
   Breakdown (checkRequirements lib clk data k reqs r) (Field (reqs ! i) @ ''_requirement'') =
     Some (requirementDetail lib (reqs ! i)
            (evaluateCondition lib (clk (k + i)) data
               (Field (reqs ! i)) (Operator (reqs ! i)) (Value (reqs ! i))))"
proof (induction reqs arbitrary: k r i)
  case Nil
  then show ?case by simp
next
  case (Cons q reqs)
  show ?case
  proof (cases i)
    case 0
    have "Field q \<notin> Field ` set reqs"
      using Cons.prems(2) 0 lastOnField_Cons_0 by blast
    then have "Field q @ ''_requirement'' \<notin> (\<lambda>q. Field q @ ''_requirement'') ` set reqs"
      by auto
    then show ?thesis
      using 0 by (simp add: Let_def checkRequirements_other)
  next
    case (Suc i')
    have "i' < length reqs" using Cons.prems(1) Suc by simp
    moreover have "lastOnField reqs i'" using Cons.prems(2) Suc lastOnField_Cons_Suc by blast
    ultimately show ?thesis
      using Cons.IH [of i' "Suc k"] Suc by (simp add: Let_def)
  qed
qed

lemma checkExclusions_entry:
  "j < length exs \<Longrightarrow> lastOnField exs j \<Longrightarrow>
   Breakdown (checkExclusions lib clk data k exs r) (Field (exs ! j) @ ''_exclusion'') =
     Some (exclusionDetail lib (exs ! j)
            (evaluateCondition lib (clk (k + j)) data
               (Field (exs ! j)) (Operator (exs ! j)) (Value (exs ! j))))"
proof (induction exs arbitrary: k r j)
  case Nil
  then show ?case by simp
next
  case (Cons q exs)
  show ?case
  proof (cases j)
    case 0
    have "Field q \<notin> Field ` set exs"
      using Cons.prems(2) 0 lastOnField_Cons_0 by blast
    then have "Field q @ ''_exclusion'' \<notin> (\<lambda>q. Field q @ ''_exclusion'') ` set exs"
      by auto
    then show ?thesis
      using 0 by (simp add: Let_def checkExclusions_other)
  next
    case (Suc j')
    have "j' < length exs" using Cons.prems(1) Suc by simp
    moreover have "lastOnField exs j'" using Cons.prems(2) Suc lastOnField_Cons_Suc by blast
    ultimately show ?thesis
      using Cons.IH [of j' "Suc k"] Suc by (simp add: Let_def)
  qed
qed

lemma ScoreCompany_unfold:
  "ScoreCompany lib clk data model =
     (let result0 = \<lparr> CompanyID = [], ScoringModelID = ID model, Score = 0, Qualified = False,
                      RequirementsMet = True, Breakdown = Map.empty, ScoredAt = clk 0 \<rparr>;
          result2 = checkExclusions lib clk data (1 + length (Requirements model))
                      (Exclusions model)
                      (checkRequirements lib clk data 1 (Requirements model) result0)
      in if RequirementsMet result2 then
           (let result3 = applyRules lib clk data
                            (1 + length (Requirements model) + length (Exclusions model))
                            (Rules model) result2
            in result3 \<lparr> Qualified := (Score result3 \<ge> MinScore model) \<rparr>)
         else result2)"
  by (simp add: ScoreCompany_def Let_def)

lemma gate_met:
  "RequirementsMet
     (checkExclusions lib clk data (1 + length (Requirements model)) (Exclusions model)
        (checkRequirements lib clk data 1 (Requirements model) r)) =
   (RequirementsMet r \<and> \<not> gated lib clk data model)"
  by (auto simp add: checkExclusions_met checkRequirements_met gated_def
        requirementOutcome_def exclusionOutcome_def Let_def)

lemma gate_met_Suc:
  "RequirementsMet
     (checkExclusions lib clk data (Suc (length (Requirements model))) (Exclusions model)
        (checkRequirements lib clk data (Suc 0) (Requirements model) r)) =
   (RequirementsMet r \<and> \<not> gated lib clk data model)"
  using gate_met [of lib clk data model r] by simp

lemma ScoreCompany_qualified:
  "Qualified (ScoreCompany lib clk data model) \<Longrightarrow>
   RequirementsMet (ScoreCompany lib clk data model)
   \<and> MinScore model \<le> Score (ScoreCompany lib clk data model)"
  unfolding ScoreCompany_unfold Let_def
  by (simp add: applyRules_frame checkExclusions_frame checkRequirements_frame split: if_splits)

lemma ScoreCompany_gated:
  assumes "gated lib clk data model"
  shows "ScoreCompany lib clk data model =
     checkExclusions lib clk data (1 + length (Requirements model)) (Exclusions model)
       (checkRequirements lib clk data 1 (Requirements model)
         \<lparr> CompanyID = [], ScoringModelID = ID model, Score = 0, Qualified = False,
           RequirementsMet = True, Breakdown = Map.empty, ScoredAt = clk 0 \<rparr>)"
  unfolding ScoreCompany_unfold Let_def using assms by (simp add: gate_met_Suc)

text \<open>
  Claim C1, as amended.  A result is qualified only if its requirements are met and its
  score reaches the model's minimum.  Whenever a requirement fails or an exclusion holds,
  whatever the rules and their weights, the requirements are not met, the score is zero
  and the result is not qualified; the breakdown then has exactly one entry per field
  named by a requirement (key: the field and \<^verbatim>\<open>_requirement\<close>) and per field named by an
  exclusion (key: the field and \<^verbatim>\<open>_exclusion\<close>), and the entry records the evaluation of
  the last requirement, or exclusion, that names the field.
\<close>

theorem score_company_gate:
  "let r = ScoreCompany lib clk data model in
     (Qualified r \<longrightarrow> RequirementsMet r \<and> MinScore model \<le> Score r)
   \<and> (gated lib clk data model \<longrightarrow>
        \<not> RequirementsMet r \<and> Score r = 0 \<and> \<not> Qualified r
        \<and> dom (Breakdown r) =
            (\<lambda>q. Field q @ ''_requirement'') ` set (Requirements model)
            \<union> (\<lambda>q. Field q @ ''_exclusion'') ` set (Exclusions model)
        \<and> (\<forall>i < length (Requirements model).
              lastOnField (Requirements model) i \<longrightarrow> recordsRequirement lib clk data model r i)
        \<and> (\<forall>j < length (Exclusions model).
              lastOnField (Exclusions model) j \<longrightarrow> recordsExclusion lib clk data model r j))"
proof -
  define r where "r = ScoreCompany lib clk data model"
  define r0 where "r0 = \<lparr> CompanyID = [], ScoringModelID = ID model, Score = 0,
    Qualified = False, RequirementsMet = True, Breakdown = Map.empty, ScoredAt = clk 0 \<rparr>"
  define r1 where "r1 = checkRequirements lib clk data 1 (Requirements model) r0"
  have q: "Qualified r \<longrightarrow> RequirementsMet r \<and> MinScore model \<le> Score r"
    unfolding r_def using ScoreCompany_qualified by blast
  have g: "\<not> RequirementsMet r \<and> Score r = 0 \<and> \<not> Qualified r
        \<and> dom (Breakdown r) =
            (\<lambda>q. Field q @ ''_requirement'') ` set (Requirements model)
            \<union> (\<lambda>q. Field q @ ''_exclusion'') ` set (Exclusions model)
        \<and> (\<forall>i < length (Requirements model).
              lastOnField (Requirements model) i \<longrightarrow> recordsRequirement lib clk data model r i)
        \<and> (\<forall>j < length (Exclusions model).
              lastOnField (Exclusions model) j \<longrightarrow> recordsExclusion lib clk data model r j)"
    if gate: "gated lib clk data model"
  proof -
    have r: "r = checkExclusions lib clk data (1 + length (Requirements model))
                   (Exclusions model) r1"
      unfolding r_def r1_def r0_def by (rule ScoreCompany_gated [OF gate])
    have met: "\<not> RequirementsMet r"
      unfolding r r1_def using gate by (simp add: gate_met_Suc r0_def)
    have sc: "Score r = 0" "\<not> Qualified r"
      unfolding r r1_def
      by (simp_all add: checkExclusions_frame checkRequirements_frame r0_def)
    have d: "dom (Breakdown r) =
            (\<lambda>q. Field q @ ''_requirement'') ` set (Requirements model)
            \<union> (\<lambda>q. Field q @ ''_exclusion'') ` set (Exclusions model)"
      unfolding r r1_def by (simp add: checkExclusions_dom checkRequirements_dom r0_def)
    have rq: "recordsRequirement lib clk data model r i"
      if "i < length (Requirements model)" "lastOnField (Requirements model) i" for i
    proof -
      have "Field (Requirements model ! i) @ ''_requirement''
              \<notin> (\<lambda>q. Field q @ ''_exclusion'') ` set (Exclusions model)"
        using key_suffix_distinct by blast
      then have "Breakdown r (Field (Requirements model ! i) @ ''_requirement'') =
                 Breakdown r1 (Field (Requirements model ! i) @ ''_requirement'')"
        unfolding r by (rule checkExclusions_other)
      then show ?thesis
        unfolding recordsRequirement_def requirementOutcome_def Let_def r1_def
        using checkRequirements_entry [OF that, of lib clk data 1 r0] by simp
    qed
    have ex: "recordsExclusion lib clk data model r j"
      if "j < length (Exclusions model)" "lastOnField (Exclusions model) j" for j
      unfolding recordsExclusion_def exclusionOutcome_def Let_def r
      using checkExclusions_entry [OF that, of lib clk data "1 + length (Requirements model)" r1]
      by simp
    show ?thesis using met sc d rq ex by blast
  qed
  show ?thesis unfolding Let_def r_def [symmetric] using q g by blast
qed

lemma pink_req0:
  "requirementOutcome sampleLib (\<lambda>k. 0) pinkCompany expertModel 0 = (False, VString ''OTC Pink'')"
  by (simp add: requirementOutcome_def expertModel_def pinkCompany_def evaluateCondition_def
        evaluateStandard_def sampleLib_def)

lemma pink_req1:
  "requirementOutcome sampleLib (\<lambda>k. 0) pinkCompany expertModel 1 =
     (True, VString ''Ineligible for solicited quotes'')"
  by (simp add: requirementOutcome_def expertModel_def pinkCompany_def evaluateCondition_def
        evaluateStandard_def sampleLib_def ToLower_def lower_char_def)

lemma pink_ex0:
  "exclusionOutcome sampleLib (\<lambda>k. 0) pinkCompany expertModel 0 = (True, VBool True)"
  by (simp add: exclusionOutcome_def expertModel_def pinkCompany_def evaluateCondition_def
        evaluateStandard_def sampleLib_def)

lemma pink_gated: "gated sampleLib (\<lambda>k. 0) pinkCompany expertModel"
  unfolding gated_def
proof (rule disjI1)
  have "0 < length (Requirements expertModel)" by (simp add: expertModel_def)
  moreover have "\<not> fst (requirementOutcome sampleLib (\<lambda>k. 0) pinkCompany expertModel 0)"
    by (simp add: pink_req0)
  ultimately show "\<exists>i<length (Requirements expertModel).
      \<not> fst (requirementOutcome sampleLib (\<lambda>k. 0) pinkCompany expertModel i)" by blast
qed

lemma expert_last_req:
  "lastOnField (Requirements expertModel) 0" "lastOnField (Requirements expertModel) 1"
  "lastOnField (Exclusions expertModel) 0"
  by (simp_all add: lastOnField_def expertModel_def less_Suc_eq)

lemma expert_qualified: "Qualified (ScoreCompany sampleLib (\<lambda>k. 0) expertCompany expertModel)"
  by (simp add: ScoreCompany_def expertModel_def expertCompany_def Let_def evaluateCondition_def
        evaluateStandard_def evaluateDelinquency_def sampleLib_def ToLower_def lower_char_def
        index_def)

text \<open>
  Claim C1 at concrete inputs: a Pink-tier company fails the first requirement of the
  Expert Market model and meets its exclusion; an Expert Market company with no filing
  dates and an unverified profile qualifies with the score 3.
\<close>

theorem score_company_gate_witness:
  "gated sampleLib (\<lambda>k. 0) pinkCompany expertModel
   \<and> \<not> RequirementsMet (ScoreCompany sampleLib (\<lambda>k. 0) pinkCompany expertModel)
   \<and> Score (ScoreCompany sampleLib (\<lambda>k. 0) pinkCompany expertModel) = 0
   \<and> \<not> Qualified (ScoreCompany sampleLib (\<lambda>k. 0) pinkCompany expertModel)
   \<and> dom (Breakdown (ScoreCompany sampleLib (\<lambda>k. 0) pinkCompany expertModel)) =
        {''market_tier_requirement'', ''quote_status_requirement'', ''caveat_emptor_exclusion''}
   \<and> Breakdown (ScoreCompany sampleLib (\<lambda>k. 0) pinkCompany expertModel)
        ''market_tier_requirement'' =
        Some \<lparr> Points = 0, Triggered = False,
               DetailDescription = ''REQUIREMENT: Must be in Expert Market tier'',
               DetailValue = ''OTC Pink'' \<rparr>
   \<and> Breakdown (ScoreCompany sampleLib (\<lambda>k. 0) pinkCompany expertModel)
        ''caveat_emptor_exclusion'' =
        Some \<lparr> Points = 0, Triggered = True,
               DetailDescription = ''EXCLUSION VIOLATED: Must not be caveat emptor'',
               DetailValue = ''true'' \<rparr>
   \<and> Qualified (ScoreCompany sampleLib (\<lambda>k. 0) expertCompany expertModel)
   \<and> RequirementsMet (ScoreCompany sampleLib (\<lambda>k. 0) expertCompany expertModel)
   \<and> MinScore expertModel \<le> Score (ScoreCompany sampleLib (\<lambda>k. 0) expertCompany expertModel)"
proof -
  define r where "r = ScoreCompany sampleLib (\<lambda>k. 0) pinkCompany expertModel"
  have len: "0 < length (Requirements expertModel)" "0 < length (Exclusions expertModel)"
    by (simp_all add: expertModel_def)
  from score_company_gate [of sampleLib "\<lambda>k. 0" pinkCompany expertModel] pink_gated
  have a: "\<not> RequirementsMet r \<and> Score r = 0 \<and> \<not> Qualified r"
    and d: "dom (Breakdown r) =
            (\<lambda>q. Field q @ ''_requirement'') ` set (Requirements expertModel)
            \<union> (\<lambda>q. Field q @ ''_exclusion'') ` set (Exclusions expertModel)"
    and rq: "recordsRequirement sampleLib (\<lambda>k. 0) pinkCompany expertModel r 0"
    and ex: "recordsExclusion sampleLib (\<lambda>k. 0) pinkCompany expertModel r 0"
    using len expert_last_req unfolding Let_def r_def by blast+
  have d': "dom (Breakdown r) =
        {''market_tier_requirement'', ''quote_status_requirement'', ''caveat_emptor_exclusion''}"
    unfolding d by (simp add: expertModel_def insert_commute)
  have rq': "Breakdown r ''market_tier_requirement'' =
        Some \<lparr> Points = 0, Triggered = False,
               DetailDescription = ''REQUIREMENT: Must be in Expert Market tier'',
               DetailValue = ''OTC Pink'' \<rparr>"
    using rq unfolding recordsRequirement_def pink_req0
    by (simp add: expertModel_def requirementDetail_def sampleLib_def)
  have ex': "Breakdown r ''caveat_emptor_exclusion'' =
        Some \<lparr> Points = 0, Triggered = True,
               DetailDescription = ''EXCLUSION VIOLATED: Must not be caveat emptor'',
               DetailValue = ''true'' \<rparr>"
    using ex unfolding recordsExclusion_def pink_ex0
    by (simp add: expertModel_def exclusionDetail_def sampleLib_def)
  from score_company_gate [of sampleLib "\<lambda>k. 0" expertCompany expertModel] expert_qualified
  have q: "RequirementsMet (ScoreCompany sampleLib (\<lambda>k. 0) expertCompany expertModel)
     \<and> MinScore expertModel \<le> Score (ScoreCompany sampleLib (\<lambda>k. 0) expertCompany expertModel)"
    unfolding Let_def by blast
  show ?thesis
    using pink_gated a d' rq' ex' expert_qualified q unfolding r_def by blast
qed

lemma twice_req0:
  "requirementOutcome sampleLib (\<lambda>k. 0) pinkCompany twiceModel 0 = (False, VString ''OTC Pink'')"
  by (simp add: requirementOutcome_def twiceModel_def pinkCompany_def evaluateCondition_def
        evaluateStandard_def sampleLib_def)

lemma twice_entry:
  "Breakdown (ScoreCompany sampleLib (\<lambda>k. 0) pinkCompany twiceModel) ''market_tier_requirement'' =
     Some \<lparr> Points = 0, Triggered = True,
            DetailDescription = ''REQUIREMENT MET: Must name a Pink tier'',
            DetailValue = ''OTC Pink'' \<rparr>"
  by (simp add: ScoreCompany_def twiceModel_def pinkCompany_def Let_def evaluateCondition_def
        evaluateStandard_def sampleLib_def ToLower_def lower_char_def requirementDetail_def)

text \<open>
  Claim C1 as stated fails where two requirements name one field: the second evaluation
  overwrites the entry of the first, so the failed requirement that gates the score has
  no entry in the breakdown.
\<close>

theorem score_company_breakdown_counterexample:
  "gated sampleLib (\<lambda>k. 0) pinkCompany twiceModel
   \<and> \<not> (\<forall>i < length (Requirements twiceModel).
          recordsRequirement sampleLib (\<lambda>k. 0) pinkCompany twiceModel
            (ScoreCompany sampleLib (\<lambda>k. 0) pinkCompany twiceModel) i)"
proof
  have "0 < length (Requirements twiceModel)" by (simp add: twiceModel_def)
  moreover have "\<not> fst (requirementOutcome sampleLib (\<lambda>k. 0) pinkCompany twiceModel 0)"
    by (simp add: twice_req0)
  ultimately show "gated sampleLib (\<lambda>k. 0) pinkCompany twiceModel"
    unfolding gated_def by blast
next
  show "\<not> (\<forall>i < length (Requirements twiceModel).
          recordsRequirement sampleLib (\<lambda>k. 0) pinkCompany twiceModel
            (ScoreCompany sampleLib (\<lambda>k. 0) pinkCompany twiceModel) i)"
  proof
    assume all: "\<forall>i < length (Requirements twiceModel).
          recordsRequirement sampleLib (\<lambda>k. 0) pinkCompany twiceModel
            (ScoreCompany sampleLib (\<lambda>k. 0) pinkCompany twiceModel) i"
    have "0 < length (Requirements twiceModel)" by (simp add: twiceModel_def)
    with all have "recordsRequirement sampleLib (\<lambda>k. 0) pinkCompany twiceModel
            (ScoreCompany sampleLib (\<lambda>k. 0) pinkCompany twiceModel) 0" by blast
    moreover have "Field (Requirements twiceModel ! 0) @ ''_requirement'' = ''market_tier_requirement''"
      by (simp add: twiceModel_def)
    ultimately have "Some \<lparr> Points = 0, Triggered = True,
            DetailDescription = ''REQUIREMENT MET: Must name a Pink tier'',
            DetailValue = ''OTC Pink'' \<rparr> =
        Some (requirementDetail sampleLib (Requirements twiceModel ! 0) (False, VString ''OTC Pink''))"
      unfolding recordsRequirement_def twice_req0 using twice_entry by simp
    then show False
      by (simp add: requirementDetail_def)
  qed
qed

section \<open>Properties of the fetch clients\<close>

lemma successes_simps:
  "successes [] = []"
  "successes ((u, Inr d) # rs) = (u, d) # successes rs"
  "successes ((u, Inl e) # rs) = successes rs"
  by (simp_all add: successes_def List.map_filter_simps)

lemma failures_simps:
  "failures [] = []"
  "failures ((u, Inr d) # rs) = failures rs"
  "failures ((u, Inl e) # rs) = (u, e) # failures rs"
  by (simp_all add: failures_def List.map_filter_simps)

lemma map_of_rev_Cons: "m ++ map_of (rev ((k, v) # xs)) = m(k \<mapsto> v) ++ map_of (rev xs)"
proof -
  have "map_of (rev ((k, v) # xs)) = map_of [(k, v)] ++ map_of (rev xs)"
    by (simp add: map_of_append del: map_of.simps)
  then have "m ++ map_of (rev ((k, v) # xs)) = (m ++ map_of [(k, v)]) ++ map_of (rev xs)"
    by (simp only: map_add_assoc)
  then show ?thesis by simp
qed

lemma fallback_singleFetches:
  "fallback px urls docs errors sent =
     ((docs ++ fst (splitResults (fst (singleFetches px urls sent))),
       errors ++ snd (splitResults (fst (singleFetches px urls sent)))),
      snd (singleFetches px urls sent))"
proof (induction urls arbitrary: docs errors sent)
  case Nil
  show ?case by (simp add: splitResults_def successes_simps failures_simps)
next
  case (Cons url urls)
  obtain r sent' where g: "OxyGet px url sent = (r, sent')" by (cases "OxyGet px url sent")
  obtain rs sent'' where s: "singleFetches px urls sent' = (rs, sent'')"
    by (cases "singleFetches px urls sent'")
  show ?case
  proof (cases r)
    case (Inl err)
    then show ?thesis
      using g s
      by (simp add: Cons.IH splitResults_def successes_simps failures_simps map_of_rev_Cons
            del: rev.simps, (simp add: fun_upd_def)?)
  next
    case (Inr doc)
    then show ?thesis
      using g s
      by (simp add: Cons.IH splitResults_def successes_simps failures_simps map_of_rev_Cons
            del: rev.simps, (simp add: fun_upd_def)?)
  qed
qed

lemma fallback_empty:
  "fallback px urls Map.empty Map.empty sent =
     (splitResults (fst (singleFetches px urls sent)), snd (singleFetches px urls sent))"
  by (simp add: fallback_singleFetches)

lemma singleFetches_urls: "map fst (fst (singleFetches px urls sent)) = urls"
proof (induction urls arbitrary: sent)
  case Nil
  show ?case by simp
next
  case (Cons url urls)
  obtain r sent' where g: "OxyGet px url sent = (r, sent')" by (cases "OxyGet px url sent")
  obtain rs sent'' where s: "singleFetches px urls sent' = (rs, sent'')"
    by (cases "singleFetches px urls sent'")
  show ?case using Cons.IH [of sent'] g s by simp
qed

lemma GetBatch_fails:
  "batchFails px urls sent \<Longrightarrow>
   GetBatch px urls sent = fallback px urls Map.empty Map.empty (afterBatch px urls sent)"
  unfolding batchFails_def GetBatch_def afterBatch_def
  by (auto split: sum.splits option.splits http_reply.splits)

text \<open>A stateless proxy: the result of a single fetch does not depend on what was posted.\<close>

lemma OxyGet_stateless:
  "stateless px \<Longrightarrow> fst (OxyGet px url sent) = fst (OxyGet px url sent')"
proof -
  assume "stateless px"
  then have r: "\<And>body. roundTrip px sent body = roundTrip px sent' body"
    unfolding stateless_def by blast
  show ?thesis
    unfolding OxyGet_def
    by (simp add: r split: sum.splits option.splits http_reply.splits list.splits)
qed

lemma singleFetches_stateless:
  "stateless px \<Longrightarrow> fst (singleFetches px urls sent) = fst (singleFetches px urls sent')"
proof (induction urls arbitrary: sent sent')
  case Nil
  show ?case by simp
next
  case (Cons url urls)
  obtain r s1 where g: "OxyGet px url sent = (r, s1)" by (cases "OxyGet px url sent")
  obtain r' s1' where g': "OxyGet px url sent' = (r', s1')" by (cases "OxyGet px url sent'")
  have rr: "r = r'" using OxyGet_stateless [OF Cons.prems, of url sent sent'] g g' by simp
  obtain rs s2 where s: "singleFetches px urls s1 = (rs, s2)"
    by (cases "singleFetches px urls s1")
  obtain rs' s2' where s': "singleFetches px urls s1' = (rs', s2')"
    by (cases "singleFetches px urls s1'")
  have "rs = rs'" using Cons.IH [OF Cons.prems, of s1 s1'] s s' by simp
  then show ?case using g g' s s' rr by simp
qed

text \<open>
  Claim C2.  When the batch attempt fails at the batch level (marshalling, request
  construction, transport, reading the body, decoding the envelope), \<^verbatim>\<open>GetBatch\<close> makes
  one single fetch per URL, in order, starting from the traffic the attempt left, and
  returns exactly the split of their results into documents and errors; for a proxy whose
  answers do not depend on earlier traffic that is the split the single fetches give
  without any batch attempt.
\<close>

theorem batch_failure_falls_back:
  "batchFails px urls sent \<Longrightarrow>
   GetBatch px urls sent =
     (splitResults (fst (singleFetches px urls (afterBatch px urls sent))),
      snd (singleFetches px urls (afterBatch px urls sent)))
   \<and> map fst (fst (singleFetches px urls (afterBatch px urls sent))) = urls
   \<and> (stateless px \<longrightarrow>
        fst (GetBatch px urls sent) = splitResults (fst (singleFetches px urls sent)))"
proof -
  assume f: "batchFails px urls sent"
  have a: "GetBatch px urls sent =
     (splitResults (fst (singleFetches px urls (afterBatch px urls sent))),
      snd (singleFetches px urls (afterBatch px urls sent)))"
    using GetBatch_fails [OF f] by (simp add: fallback_empty)
  have c: "fst (GetBatch px urls sent) = splitResults (fst (singleFetches px urls sent))"
    if "stateless px"
    using a singleFetches_stateless [OF that, of urls "afterBatch px urls sent" sent] by simp
  show ?thesis using a c singleFetches_urls by blast
qed

lemma processResults_positional:
  "processResults px urls i results docs errors =
     (docs ++ fst (splitResults (positional px (drop i urls) results)),
      errors ++ snd (splitResults (positional px (drop i urls) results)))"
proof (induction results arbitrary: i docs errors)
  case Nil
  show ?case by (simp add: positional_def splitResults_def successes_simps failures_simps)
next
  case (Cons result results)
  show ?case
  proof (cases "i \<ge> length urls")
    case True
    then show ?thesis
      by (simp add: positional_def splitResults_def successes_simps failures_simps)
  next
    case False
    then have d: "drop i urls = urls ! i # drop (Suc i) urls"
      by (simp add: Cons_nth_drop_Suc)
    show ?thesis
    proof (cases "pageOutcome px result")
      case (Inl err)
      then show ?thesis
        using False
        by (simp add: Cons.IH d positional_def splitResults_def successes_simps failures_simps
              map_of_rev_Cons Let_def del: rev.simps, (simp add: fun_upd_def)?)
    next
      case (Inr doc)
      then show ?thesis
        using False
        by (simp add: Cons.IH d positional_def splitResults_def successes_simps failures_simps
              map_of_rev_Cons Let_def del: rev.simps, (simp add: fun_upd_def)?)
    qed
  qed
qed

lemma successes_keys: "fst ` set (successes rs) \<subseteq> fst ` set rs"
proof (induction rs)
  case Nil
  show ?case by (simp add: successes_simps)
next
  case (Cons x rs)
  obtain u r where x: "x = (u, r)" by (cases x)
  show ?case using Cons by (cases r) (auto simp: x successes_simps)
qed

lemma failures_keys: "fst ` set (failures rs) \<subseteq> fst ` set rs"
proof (induction rs)
  case Nil
  show ?case by (simp add: failures_simps)
next
  case (Cons x rs)
  obtain u r where x: "x = (u, r)" by (cases x)
  show ?case using Cons by (cases r) (auto simp: x failures_simps)
qed

lemma splitResults_dom:
  "dom (fst (splitResults rs)) \<subseteq> fst ` set rs" "dom (snd (splitResults rs)) \<subseteq> fst ` set rs"
  using successes_keys [of rs] failures_keys [of rs]
  by (simp_all add: splitResults_def dom_map_of_conv_image_fst)

lemma positional_keys: "fst ` set (positional px urls results) = set (take (length results) urls)"
proof -
  have "map fst (positional px urls results) = map fst (zip urls results)"
    by (simp add: positional_def case_prod_unfold)
  also have "\<dots> = take (length results) urls" by (simp add: map_fst_zip_take min_def)
  finally have "set (map fst (positional px urls results)) = set (take (length results) urls)"
    by simp
  then show ?thesis by simp
qed

lemma beyond_results:
  assumes "distinct urls" "i < length urls" "length results \<le> i"
  shows "urls ! i \<notin> set (take (length results) urls)"
proof
  assume "urls ! i \<in> set (take (length results) urls)"
  then obtain j where j: "j < length (take (length results) urls)"
      "take (length results) urls ! j = urls ! i"
    by (auto simp: in_set_conv_nth)
  then have "j < length results" "j < length urls" "urls ! j = urls ! i" by simp_all
  with assms have "j = i" by (simp add: nth_eq_iff_index_eq)
  with \<open>j < length results\<close> assms(3) show False by simp
qed

text \<open>
  Claim C9.  When the batch response decodes, whatever its HTTP status, the \<open>i\<close>-th
  result is taken for the \<open>i\<close>-th URL and nothing else is recorded: with distinct URLs,
  every URL at a position beyond the number of results is in neither the document map
  nor the error map.
\<close>

theorem batch_results_by_position:
  "marshalBatch px (map oxyRequest urls) = Inr body \<Longrightarrow>
   newRequest px body = None \<Longrightarrow>
   roundTrip px sent body = Reply status (Inr respBody) \<Longrightarrow>
   unmarshalResponse px respBody = Inr results \<Longrightarrow>
   GetBatch px urls sent = (splitResults (positional px urls results), sent @ [body])
   \<and> (distinct urls \<longrightarrow>
        (\<forall>i < length urls. length results \<le> i \<longrightarrow>
           fst (fst (GetBatch px urls sent)) (urls ! i) = None
           \<and> snd (fst (GetBatch px urls sent)) (urls ! i) = None))"
proof -
  assume a: "marshalBatch px (map oxyRequest urls) = Inr body" "newRequest px body = None"
    "roundTrip px sent body = Reply status (Inr respBody)"
    "unmarshalResponse px respBody = Inr results"
  have g: "GetBatch px urls sent = (splitResults (positional px urls results), sent @ [body])"
    unfolding GetBatch_def using a by (simp add: processResults_positional)
  have n: "fst (fst (GetBatch px urls sent)) (urls ! i) = None
           \<and> snd (fst (GetBatch px urls sent)) (urls ! i) = None"
    if "distinct urls" "i < length urls" "length results \<le> i" for i
  proof -
    have "urls ! i \<notin> fst ` set (positional px urls results)"
      unfolding positional_keys using that by (rule beyond_results)
    then have "urls ! i \<notin> dom (fst (splitResults (positional px urls results)))"
      "urls ! i \<notin> dom (snd (splitResults (positional px urls results)))"
      using splitResults_dom [of "positional px urls results"] by blast+
    then show ?thesis unfolding g by (simp add: domIff)
  qed
  show ?thesis using g n by blast
qed

text \<open>
  Claim C9 at concrete inputs: two results for three URLs leave the third URL in neither
  map; a response of status 500 whose body decodes to no results leaves every URL in
  neither map.
\<close>

theorem batch_results_by_position_witness:
  "fst (fst (GetBatch (sampleProxy TwoResults) [''a'', ''missing'', ''c''] [])) ''a'' = Some ''a''
   \<and> snd (fst (GetBatch (sampleProxy TwoResults) [''a'', ''missing'', ''c''] [])) ''missing'' =
        Some (TargetStatus 404)
   \<and> fst (fst (GetBatch (sampleProxy TwoResults) [''a'', ''missing'', ''c''] [])) ''c'' = None
   \<and> snd (fst (GetBatch (sampleProxy TwoResults) [''a'', ''missing'', ''c''] [])) ''c'' = None
   \<and> fst (fst (GetBatch (sampleProxy ServerError) [''a'', ''b''] [])) ''a'' = None
   \<and> snd (fst (GetBatch (sampleProxy ServerError) [''a'', ''b''] [])) ''a'' = None
   \<and> fst (fst (GetBatch (sampleProxy ServerError) [''a'', ''b''] [])) ''b'' = None
   \<and> snd (fst (GetBatch (sampleProxy ServerError) [''a'', ''b''] [])) ''b'' = None"
proof -
  have p2: "marshalBatch (sampleProxy TwoResults) (map oxyRequest [''a'', ''missing'', ''c'']) =
              Inr ''batch''"
    "newRequest (sampleProxy TwoResults) ''batch'' = None"
    "roundTrip (sampleProxy TwoResults) [] ''batch'' = Reply 200 (Inr ''two'')"
    "unmarshalResponse (sampleProxy TwoResults) ''two'' =
       Inr [resultFor ''a'', resultFor ''missing'']"
    by (simp_all add: sampleProxy_def)
  have d2: "distinct [''a'', ''missing'', ''c'']" by simp
  note r2 = batch_results_by_position [OF p2]
  have two: "GetBatch (sampleProxy TwoResults) [''a'', ''missing'', ''c''] [] =
      (splitResults (positional (sampleProxy TwoResults) [''a'', ''missing'', ''c'']
         [resultFor ''a'', resultFor ''missing'']), [] @ [''batch''])"
    using r2 by blast
  have "fst (fst (GetBatch (sampleProxy TwoResults) [''a'', ''missing'', ''c''] []))
                 ([''a'', ''missing'', ''c''] ! 2) = None
       \<and> snd (fst (GetBatch (sampleProxy TwoResults) [''a'', ''missing'', ''c''] []))
                 ([''a'', ''missing'', ''c''] ! 2) = None"
    using r2 [THEN conjunct2, rule_format, OF d2, of 2] by simp
  then have twoN: "fst (fst (GetBatch (sampleProxy TwoResults) [''a'', ''missing'', ''c''] []))
                 ''c'' = None
       \<and> snd (fst (GetBatch (sampleProxy TwoResults) [''a'', ''missing'', ''c''] []))
                 ''c'' = None"
    by simp
  have p5: "marshalBatch (sampleProxy ServerError) (map oxyRequest [''a'', ''b'']) = Inr ''batch''"
    "newRequest (sampleProxy ServerError) ''batch'' = None"
    "roundTrip (sampleProxy ServerError) [] ''batch'' = Reply 500 (Inr ''none'')"
    "unmarshalResponse (sampleProxy ServerError) ''none'' = Inr []"
    by (simp_all add: sampleProxy_def)
  have d5: "distinct [''a'', ''b'']" by simp
  note r5 = batch_results_by_position [OF p5, THEN conjunct2, rule_format, OF d5]
  have e0: "fst (fst (GetBatch (sampleProxy ServerError) [''a'', ''b''] [])) ''a'' = None
       \<and> snd (fst (GetBatch (sampleProxy ServerError) [''a'', ''b''] [])) ''a'' = None"
    using r5 [of 0] by simp
  have e1: "fst (fst (GetBatch (sampleProxy ServerError) [''a'', ''b''] [])) ''b'' = None
       \<and> snd (fst (GetBatch (sampleProxy ServerError) [''a'', ''b''] [])) ''b'' = None"
    using r5 [of 1] by simp
  have t: "fst (fst (GetBatch (sampleProxy TwoResults) [''a'', ''missing'', ''c''] [])) ''a''
             = Some ''a''"
    "snd (fst (GetBatch (sampleProxy TwoResults) [''a'', ''missing'', ''c''] [])) ''missing'' =
        Some (TargetStatus 404)"
    unfolding two
    by (simp_all add: splitResults_def positional_def successes_simps failures_simps
          pageOutcome_def resultFor_def sampleProxy_def)
  show ?thesis using t twoN e0 e1 by simp
qed

lemma sample_single:
  "OxyGet (sampleProxy mode) ''a'' sent = (Inr ''a'', sent @ [''a''])"
  "OxyGet (sampleProxy mode) ''missing'' sent = (Inl (TargetStatus 404), sent @ [''missing''])"
  by (simp_all add: OxyGet_def sampleProxy_def oxyRequest_def pageOutcome_def resultFor_def)

text \<open>
  Claim C2 at a concrete input: the envelope of the batch response does not decode, the
  two URLs are fetched singly, one succeeds and one fails with the page status 404.
\<close>

theorem batch_failure_falls_back_witness:
  "batchFails (sampleProxy Malformed) [''a'', ''missing''] []
   \<and> stateless (sampleProxy Malformed)
   \<and> fst (fst (GetBatch (sampleProxy Malformed) [''a'', ''missing''] [])) ''a'' = Some ''a''
   \<and> snd (fst (GetBatch (sampleProxy Malformed) [''a'', ''missing''] [])) ''a'' = None
   \<and> fst (fst (GetBatch (sampleProxy Malformed) [''a'', ''missing''] [])) ''missing'' = None
   \<and> snd (fst (GetBatch (sampleProxy Malformed) [''a'', ''missing''] [])) ''missing'' =
        Some (TargetStatus 404)
   \<and> snd (GetBatch (sampleProxy Malformed) [''a'', ''missing''] []) =
        [''batch'', ''a'', ''missing'']"
proof -
  have f: "batchFails (sampleProxy Malformed) [''a'', ''missing''] []"
    by (simp add: batchFails_def sampleProxy_def)
  have st: "stateless (sampleProxy Malformed)"
    by (simp add: stateless_def sampleProxy_def)
  have ab: "afterBatch (sampleProxy Malformed) [''a'', ''missing''] [] = [''batch'']"
    by (simp add: afterBatch_def sampleProxy_def)
  have sf: "singleFetches (sampleProxy Malformed) [''a'', ''missing''] [''batch''] =
      ([(''a'', Inr ''a''), (''missing'', Inl (TargetStatus 404))], [''batch'', ''a'', ''missing''])"
    by (simp add: sample_single)
  have g: "GetBatch (sampleProxy Malformed) [''a'', ''missing''] [] =
      (splitResults [(''a'', Inr ''a''), (''missing'', Inl (TargetStatus 404))],
       [''batch'', ''a'', ''missing''])"
    using batch_failure_falls_back [OF f] unfolding ab sf by simp
  show ?thesis
    unfolding g using f st
    by (simp add: splitResults_def successes_simps failures_simps)
qed


lemma OxyGet_posts:
  "snd (OxyGet px url sent) = sent \<or> (\<exists>body. snd (OxyGet px url sent) = sent @ [body])"
  unfolding OxyGet_def
  by (auto split: sum.splits option.splits http_reply.splits list.splits)











section \<open>Properties of the scraper\<close>


lemma urls_nth:
  "pageURLs ticker ! 0 = ''https://www.otcmarkets.com/stock/'' @ ticker @ ''/overview''"
  "pageURLs ticker ! 1 = ''https://www.otcmarkets.com/stock/'' @ ticker @ ''/financials''"
  "pageURLs ticker ! 2 = ''https://www.otcmarkets.com/stock/'' @ ticker @ ''/disclosure''"
  by (simp_all add: pageURLs_def)















section \<open>Properties of the scoring pipeline\<close>

text \<open>
  What holds of claim C5 in every state: \<^verbatim>\<open>Start\<close> on a running pipeline and \<^verbatim>\<open>Stop\<close> on a
  stopped one return an error and change nothing; \<^verbatim>\<open>Start\<close> on a stopped pipeline sets it
  running and launches exactly one goroutine; \<^verbatim>\<open>Stop\<close> on a running pipeline whose stop
  channel is still open closes it, waits, and returns with the pipeline stopped.
\<close>

lemma start_while_running:
  "isRunning p \<Longrightarrow> Start cfg p = (Returns (Failed ''pipeline is already running''), p)"
  by (simp add: Start_def)

lemma stop_while_stopped:
  "\<not> isRunning p \<Longrightarrow> Stop p = (Returns (Failed ''pipeline is not running''), p)"
  by (simp add: Stop_def)

lemma start_launches_one:
  "\<not> isRunning p \<Longrightarrow>
   fst (Start cfg p) = Returns Ok \<and> isRunning (snd (Start cfg p))
   \<and> loops (snd (Start cfg p)) = loops p @ [\<lparr> pc = Starting, cycles = 0, config = cfg \<rparr>]
   \<and> stopChanClosed (snd (Start cfg p)) = stopChanClosed p"
  by (simp add: Start_def)

lemma stop_open_channel:
  "isRunning p \<Longrightarrow> \<not> stopChanClosed p \<Longrightarrow>
   fst (Stop p) = Waits \<and> stopChanClosed (snd (Stop p)) \<and> mutexHeld (snd (Stop p))
   \<and> fst (StopReturn (snd (Stop p))) = Returns Ok
   \<and> \<not> isRunning (snd (StopReturn (snd (Stop p))))"
  by (simp add: Stop_def StopReturn_def)




lemma restart_state:
  "run restartSchedule NewScoringPipeline =
     Some ([Returns Ok, Internal, Waits, Internal, Returns Ok, Returns Ok],
           \<lparr> isRunning = True, stopChanClosed = True, wg = 1, mutexHeld = False,
             loops = [\<lparr> pc = Exited, cycles = 1, config = DefaultPipelineConfig \<rparr>,
                      \<lparr> pc = Starting, cycles = 0, config = DefaultPipelineConfig \<rparr>],
             crashed = False \<rparr>)"
  by (simp add: restartSchedule_def NewScoringPipeline_def DefaultPipelineConfig_def Start_def
        Stop_def StopReturn_def loopAt_def loopBegin_def loopStop_def updateLoop_def)






text \<open>
  Claim C5 at the failing input: start, stop, start again, stop again.  The second \<^verbatim>\<open>Stop\<close>
  panics on closing the closed channel, and the pipeline stays running.
\<close>

theorem stop_after_restart_panics:
  "map_option (\<lambda>(outs, p). (outs, isRunning p))
     (run (restartSchedule @ [DoStop]) NewScoringPipeline) =
   Some ([Returns Ok, Internal, Waits, Internal, Returns Ok, Returns Ok,
          Returns (Panics ''close of closed channel'')], True)"
  by (simp add: restartSchedule_def NewScoringPipeline_def DefaultPipelineConfig_def Start_def
        Stop_def StopReturn_def loopAt_def loopBegin_def loopStop_def updateLoop_def)


end
